theory Spec2Isabelle
  imports Main "HOL-Library.Multiset"
begin

section \<open>JavaScript values\<close>

text \<open>
  An optional property of a JavaScript object is absent (\<open>undefined\<close>), \<open>null\<close>, or
  holds a value. The three cases are kept apart because the source treats them
  differently: \<open>new Date(undefined)\<close> is an invalid date, \<open>new Date(null)\<close> is the epoch.
\<close>

datatype 'a js_opt = Undefined | Null | Val 'a

fun isNullOrUndefined :: "'a js_opt \<Rightarrow> bool" where
  "isNullOrUndefined Undefined = True"
| "isNullOrUndefined Null = True"
| "isNullOrUndefined (Val v) = False"

text \<open>A \<open>Date\<close> object holds a time value in milliseconds since the epoch, or NaN.\<close>

datatype Date = Date int | InvalidDate

text \<open>\<open>new Date(x)\<close> for an optional \<open>Date\<close> argument.\<close>

fun new_Date :: "Date js_opt \<Rightarrow> Date" where
  "new_Date Undefined = InvalidDate"
| "new_Date Null = Date 0"
| "new_Date (Val d) = d"

datatype json =
    JNull
  | JBool bool
  | JNumber int
  | JString string
  | JArray "json list"
  | JObject "(string \<times> json) list"

type_synonym PayloadContent = "(string \<times> json) list"

text \<open>The type \<open>PayloadContent | string\<close> of the \<open>content\<close> property.\<close>

datatype content = ContentString string | ContentObject PayloadContent

text \<open>Truthiness (\<open>if (x)\<close>, \<open>!x\<close>, \<open>x || y\<close>) at the types the payload properties have.\<close>

fun truthy_string :: "string js_opt \<Rightarrow> bool" where
  "truthy_string (Val s) = (s \<noteq> [])"
| "truthy_string _ = False"

fun truthy_bool :: "bool js_opt \<Rightarrow> bool" where
  "truthy_bool (Val b) = b"
| "truthy_bool _ = False"

fun truthy_object :: "'a js_opt \<Rightarrow> bool" where
  "truthy_object (Val d) = True"
| "truthy_object _ = False"

fun truthy_content :: "content js_opt \<Rightarrow> bool" where
  "truthy_content (Val (ContentString s)) = (s \<noteq> [])"
| "truthy_content (Val (ContentObject c)) = True"
| "truthy_content _ = False"

definition startsWith :: "string \<Rightarrow> string \<Rightarrow> bool" where
  "startsWith s pre = (take (length pre) s = pre)"

section \<open>Payloads (pure\_payload.ts)\<close>

datatype PayloadField =
    Uuid
  | ContentType
  | ItemsKeyId
  | EncItemKey
  | Content
  | CreatedAt
  | UpdatedAt
  | Deleted
  | Legacy003AuthHash
  | Legacy003AuthParams
  | Dirty
  | DirtiedDate
  | WaitingForKey
  | ErrorDecrypting
  | ErrorDecryptingChanged
  | LastSyncBegan
  | LastSyncEnd

datatype PayloadSource =
    Constructor
  | LocalRetrieved
  | LocalSaved
  | RemoteRetrieved
  | RemoteSaved
  | RemoteConflict
  | LocalDirtied
  | ComponentRetrieved
  | FileImport

datatype PayloadFormat =
    EncryptedString
  | DecryptedBareObject
  | DecryptedBase64String
  | FormatDeleted

text \<open>
  Modelled from the spec: the constants \<open>ProtocolVersion.V000Base64Decrypted\<close> and
  \<open>ProtocolVersion.VersionLength\<close> of the versions module, which is not among the
  sources. The spec gives the reserved prefix \<open>"000"\<close> and a 3-character version tag.
\<close>

definition V000Base64Decrypted :: string where
  "V000Base64Decrypted = ''000''"

definition VersionLength :: nat where
  "VersionLength = 3"

record RawPayload =
  uuid :: "string js_opt"
  content_type :: "string js_opt"
  content :: "content js_opt"
  deleted :: "bool js_opt"
  items_key_id :: "string js_opt"
  enc_item_key :: "string js_opt"
  created_at :: "Date js_opt"
  updated_at :: "Date js_opt"
  dirtiedDate :: "Date js_opt"
  dirty :: "bool js_opt"
  errorDecrypting :: "bool js_opt"
  waitingForKey :: "bool js_opt"
  errorDecryptingValueChanged :: "bool js_opt"
  lastSyncBegan :: "Date js_opt"
  lastSyncEnd :: "Date js_opt"
  auth_hash :: "string js_opt"
  auth_params :: "json js_opt"

record PurePayload = RawPayload +
  payload_fields :: "PayloadField list"
  source :: PayloadSource
  format :: PayloadFormat
  version :: "json option"

datatype error =
    UuidIsNull
  | MissingKey
  | UnhandledFormatCase
  | NoOperatorForVersion string
  | UnableToGenerateEncryptionParameters
  | NonPayloadObject
  | ContentNotAString
  | OperatorError string

text \<open>Lines 101 to 111 of the constructor: the format read off \<open>this.content\<close>.\<close>

fun content_format :: "content js_opt \<Rightarrow> PayloadFormat" where
  "content_format (Val (ContentString s)) =
     (if startsWith s V000Base64Decrypted then DecryptedBase64String else EncryptedString)"
| "content_format (Val (ContentObject c)) = DecryptedBareObject"
| "content_format _ = FormatDeleted"

text \<open>
  Lines 113 to 120: the version read off \<open>this.content\<close>. \<open>None\<close> is a version that
  was never assigned, or a \<open>content.version\<close> that the object does not have.
\<close>

fun content_version :: "content js_opt \<Rightarrow> json option" where
  "content_version (Val (ContentString s)) = Some (JString (take VersionLength s))"
| "content_version (Val (ContentObject c)) = map_of c ''version''"
| "content_version _ = None"

text \<open>
  The constructor. \<open>now\<close> is the time value \<open>new Date()\<close> reads, \<open>FillItemContent\<close>
  the function of that name from the models module (not among the sources), and
  \<open>rawKeys\<close> is \<open>Object.keys(rawPayload)\<close>, which a record value does not carry.
  The \<open>fields\<close> and \<open>source\<close> arguments are optional.
\<close>

definition PurePayload_new ::
  "int \<Rightarrow> (PayloadContent \<Rightarrow> PayloadContent) \<Rightarrow> PayloadField list \<Rightarrow> RawPayload
     \<Rightarrow> PayloadField list option \<Rightarrow> PayloadSource option \<Rightarrow> error + PurePayload" where
  "PurePayload_new now FillItemContent rawKeys rawPayload fieldsArg sourceArg =
    (let this_fields = (case fieldsArg of Some fs \<Rightarrow> fs | None \<Rightarrow> rawKeys);
         this_source = (case sourceArg of Some s \<Rightarrow> s | None \<Rightarrow> Constructor);
         this_uuid = uuid rawPayload
     in
       if \<not> truthy_string this_uuid \<and> Uuid \<in> set this_fields then Inl UuidIsNull
       else
         let this_content =
               (if truthy_content (content rawPayload)
                then (case content rawPayload of
                        Val (ContentObject c) \<Rightarrow> Val (ContentObject (FillItemContent c))
                      | c \<Rightarrow> c)
                else Undefined)
         in Inr \<lparr>
              uuid = this_uuid,
              content_type = content_type rawPayload,
              content = this_content,
              deleted = deleted rawPayload,
              items_key_id = items_key_id rawPayload,
              enc_item_key = enc_item_key rawPayload,
              created_at =
                Val (new_Date (if truthy_object (created_at rawPayload)
                               then created_at rawPayload else Val (Date now))),
              updated_at =
                Val (new_Date (if truthy_object (updated_at rawPayload)
                               then updated_at rawPayload else Val (Date 0))),
              dirtiedDate = Val (new_Date (dirtiedDate rawPayload)),
              dirty = dirty rawPayload,
              errorDecrypting = errorDecrypting rawPayload,
              waitingForKey = waitingForKey rawPayload,
              errorDecryptingValueChanged = errorDecryptingValueChanged rawPayload,
              lastSyncBegan =
                (if truthy_object (lastSyncBegan rawPayload)
                 then Val (new_Date (lastSyncBegan rawPayload)) else Undefined),
              lastSyncEnd =
                (if truthy_object (lastSyncEnd rawPayload)
                 then Val (new_Date (lastSyncEnd rawPayload)) else Undefined),
              auth_hash = auth_hash rawPayload,
              auth_params = auth_params rawPayload,
              payload_fields = this_fields,
              source = this_source,
              format = content_format this_content,
              version = content_version this_content
            \<rparr>)"

subsection \<open>Reading a property by its field name\<close>

datatype jsvalue =
    VString string
  | VBool bool
  | VDate Date
  | VContent content
  | VJson json

text \<open>\<open>this[field]\<close> for a field of the \<open>PayloadField\<close> enumeration.\<close>

fun payload_get :: "PurePayload \<Rightarrow> PayloadField \<Rightarrow> jsvalue js_opt" where
  "payload_get p Uuid = map_js_opt VString (uuid p)"
| "payload_get p ContentType = map_js_opt VString (content_type p)"
| "payload_get p ItemsKeyId = map_js_opt VString (items_key_id p)"
| "payload_get p EncItemKey = map_js_opt VString (enc_item_key p)"
| "payload_get p Content = map_js_opt VContent (content p)"
| "payload_get p CreatedAt = map_js_opt VDate (created_at p)"
| "payload_get p UpdatedAt = map_js_opt VDate (updated_at p)"
| "payload_get p Deleted = map_js_opt VBool (deleted p)"
| "payload_get p Legacy003AuthHash = map_js_opt VString (auth_hash p)"
| "payload_get p Legacy003AuthParams = map_js_opt VJson (auth_params p)"
| "payload_get p Dirty = map_js_opt VBool (dirty p)"
| "payload_get p DirtiedDate = map_js_opt VDate (dirtiedDate p)"
| "payload_get p WaitingForKey = map_js_opt VBool (waitingForKey p)"
| "payload_get p ErrorDecrypting = map_js_opt VBool (errorDecrypting p)"
| "payload_get p ErrorDecryptingChanged = map_js_opt VBool (errorDecryptingValueChanged p)"
| "payload_get p LastSyncBegan = map_js_opt VDate (lastSyncBegan p)"
| "payload_get p LastSyncEnd = map_js_opt VDate (lastSyncEnd p)"

subsection \<open>ejected\<close>

definition optionalFields :: "PayloadField list" where
  "optionalFields = [Legacy003AuthHash, Deleted]"

definition nonRequiredFields :: "PayloadField list" where
  "nonRequiredFields =
     [DirtiedDate, ErrorDecrypting, ErrorDecryptingChanged, WaitingForKey,
      LastSyncBegan, LastSyncEnd]"

text \<open>
  The loop of \<open>ejected\<close> over the remaining fields, with the result object built so far.
  The result object is a map from field names to values; a key whose value is
  \<open>undefined\<close> is still a key of the object.
\<close>

fun ejected_loop ::
  "PurePayload \<Rightarrow> PayloadField list \<Rightarrow> (PayloadField \<rightharpoonup> jsvalue js_opt)
     \<Rightarrow> (PayloadField \<rightharpoonup> jsvalue js_opt)" where
  "ejected_loop p [] result = result"
| "ejected_loop p (field # rest) result =
     (if field \<in> set nonRequiredFields then ejected_loop p rest result
      else
        let v = payload_get p field in
          if isNullOrUndefined v \<and> field \<in> set optionalFields
          then ejected_loop p rest result
          else ejected_loop p rest (result(field \<mapsto> v)))"

definition ejected :: "PurePayload \<Rightarrow> (PayloadField \<rightharpoonup> jsvalue js_opt)" where
  "ejected p = ejected_loop p (payload_fields p) Map.empty"


section \<open>Derived payloads\<close>

text \<open>
  One key of an override object together with its value, at the type the payload
  property of that name has.
\<close>

datatype override_entry =
    Set_uuid "string js_opt"
  | Set_content_type "string js_opt"
  | Set_items_key_id "string js_opt"
  | Set_enc_item_key "string js_opt"
  | Set_content "content js_opt"
  | Set_created_at "Date js_opt"
  | Set_updated_at "Date js_opt"
  | Set_deleted "bool js_opt"
  | Set_auth_hash "string js_opt"
  | Set_auth_params "json js_opt"
  | Set_dirty "bool js_opt"
  | Set_dirtiedDate "Date js_opt"
  | Set_waitingForKey "bool js_opt"
  | Set_errorDecrypting "bool js_opt"
  | Set_errorDecryptingValueChanged "bool js_opt"
  | Set_lastSyncBegan "Date js_opt"
  | Set_lastSyncEnd "Date js_opt"

fun override_field :: "override_entry \<Rightarrow> PayloadField" where
  "override_field (Set_uuid v) = Uuid"
| "override_field (Set_content_type v) = ContentType"
| "override_field (Set_items_key_id v) = ItemsKeyId"
| "override_field (Set_enc_item_key v) = EncItemKey"
| "override_field (Set_content v) = Content"
| "override_field (Set_created_at v) = CreatedAt"
| "override_field (Set_updated_at v) = UpdatedAt"
| "override_field (Set_deleted v) = Deleted"
| "override_field (Set_auth_hash v) = Legacy003AuthHash"
| "override_field (Set_auth_params v) = Legacy003AuthParams"
| "override_field (Set_dirty v) = Dirty"
| "override_field (Set_dirtiedDate v) = DirtiedDate"
| "override_field (Set_waitingForKey v) = WaitingForKey"
| "override_field (Set_errorDecrypting v) = ErrorDecrypting"
| "override_field (Set_errorDecryptingValueChanged v) = ErrorDecryptingChanged"
| "override_field (Set_lastSyncBegan v) = LastSyncBegan"
| "override_field (Set_lastSyncEnd v) = LastSyncEnd"

fun apply_override_entry :: "override_entry \<Rightarrow> PurePayload \<Rightarrow> PurePayload" where
  "apply_override_entry (Set_uuid v) p = p\<lparr>uuid := v\<rparr>"
| "apply_override_entry (Set_content_type v) p = p\<lparr>content_type := v\<rparr>"
| "apply_override_entry (Set_items_key_id v) p = p\<lparr>items_key_id := v\<rparr>"
| "apply_override_entry (Set_enc_item_key v) p = p\<lparr>enc_item_key := v\<rparr>"
| "apply_override_entry (Set_content v) p = p\<lparr>content := v\<rparr>"
| "apply_override_entry (Set_created_at v) p = p\<lparr>created_at := v\<rparr>"
| "apply_override_entry (Set_updated_at v) p = p\<lparr>updated_at := v\<rparr>"
| "apply_override_entry (Set_deleted v) p = p\<lparr>deleted := v\<rparr>"
| "apply_override_entry (Set_auth_hash v) p = p\<lparr>auth_hash := v\<rparr>"
| "apply_override_entry (Set_auth_params v) p = p\<lparr>auth_params := v\<rparr>"
| "apply_override_entry (Set_dirty v) p = p\<lparr>dirty := v\<rparr>"
| "apply_override_entry (Set_dirtiedDate v) p = p\<lparr>dirtiedDate := v\<rparr>"
| "apply_override_entry (Set_waitingForKey v) p = p\<lparr>waitingForKey := v\<rparr>"
| "apply_override_entry (Set_errorDecrypting v) p = p\<lparr>errorDecrypting := v\<rparr>"
| "apply_override_entry (Set_errorDecryptingValueChanged v) p =
     p\<lparr>errorDecryptingValueChanged := v\<rparr>"
| "apply_override_entry (Set_lastSyncBegan v) p = p\<lparr>lastSyncBegan := v\<rparr>"
| "apply_override_entry (Set_lastSyncEnd v) p = p\<lparr>lastSyncEnd := v\<rparr>"

text \<open>The fields of the base followed by the override's keys that the base lacks.\<close>

definition fields_union :: "PayloadField list \<Rightarrow> PayloadField list \<Rightarrow> PayloadField list" where
  "fields_union base extra = base @ filter (\<lambda>f. f \<notin> set base) (remdups extra)"

text \<open>
  Modelled from the spec: \<open>CreatePayloadFromAnyObject\<close> of the payload generator
  module, which is not among the sources. The spec says that factory functions
  produce derived payloads via override-merges, that
  \<open>PayloadFromAnyObject(base, override)\<close> yields a new payload whose fields set is the
  union, and that format and version are derived from the content. The override is
  the list of its entries, later entries winning.
\<close>

definition CreatePayloadFromAnyObject :: "PurePayload \<Rightarrow> override_entry list \<Rightarrow> PurePayload" where
  "CreatePayloadFromAnyObject object override =
     (let merged = fold apply_override_entry override object
      in merged\<lparr>
           payload_fields := fields_union (payload_fields object) (map override_field override),
           format := content_format (content merged),
           version := content_version (content merged)\<rparr>)"

section \<open>Protocol manager (protocolManager.js)\<close>

datatype intent =
    ENCRYPTION_INTENT_SYNC
  | ENCRYPTION_INTENT_LOCAL_STORAGE_ENCRYPTED
  | ENCRYPTION_INTENT_LOCAL_STORAGE_DECRYPTED
  | ENCRYPTION_INTENT_LOCAL_STORAGE_PREFER_ENCRYPTED
  | ENCRYPTION_INTENT_FILE_ENCRYPTED
  | ENCRYPTION_INTENT_FILE_DECRYPTED

text \<open>
  Modelled from the spec: the protocol version tags of the versions module, which is
  not among the sources. The spec names the versions 001 to 004, the reserved tag
  \<open>"000"\<close> and the tag length 3.
\<close>

definition PROTOCOL_VERSION_001 :: string where "PROTOCOL_VERSION_001 = ''001''"
definition PROTOCOL_VERSION_002 :: string where "PROTOCOL_VERSION_002 = ''002''"
definition PROTOCOL_VERSION_003 :: string where "PROTOCOL_VERSION_003 = ''003''"
definition PROTOCOL_VERSION_004 :: string where "PROTOCOL_VERSION_004 = ''004''"
definition PROTOCOL_VERSION_BASE_64_DECRYPTED :: string where
  "PROTOCOL_VERSION_BASE_64_DECRYPTED = ''000''"
definition PROTOCOL_VERSION_LENGTH :: nat where "PROTOCOL_VERSION_LENGTH = 3"

definition latestVersion :: string where
  "latestVersion = PROTOCOL_VERSION_004"

datatype operator =
    SNProtocolOperator001
  | SNProtocolOperator002
  | SNProtocolOperator003
  | SNProtocolOperator004

definition createOperatorForVersion :: "string \<Rightarrow> error + operator" where
  "createOperatorForVersion v =
     (if v = PROTOCOL_VERSION_001 then Inr SNProtocolOperator001
      else if v = PROTOCOL_VERSION_002 then Inr SNProtocolOperator002
      else if v = PROTOCOL_VERSION_003 then Inr SNProtocolOperator003
      else if v = PROTOCOL_VERSION_004 then Inr SNProtocolOperator004
      else if v = PROTOCOL_VERSION_BASE_64_DECRYPTED then Inr SNProtocolOperator004
      else Inl (NoOperatorForVersion v))"

text \<open>
  \<open>operatorForVersion\<close> keeps the operator it created for a version and returns it on
  later calls. An operator is determined by its version, so the kept one equals a
  newly created one and the cache is left out.
\<close>

definition operatorForVersion :: "string \<Rightarrow> error + operator" where
  "operatorForVersion v = createOperatorForVersion v"

text \<open>
  \<open>payload.content.substring(0, PROTOCOL_VERSION_LENGTH)\<close>: a type error unless the
  content is a string.
\<close>

definition versionForPayload :: "PurePayload \<Rightarrow> error + string" where
  "versionForPayload payload =
     (case content payload of
        Val (ContentString s) \<Rightarrow> Inr (take PROTOCOL_VERSION_LENGTH s)
      | _ \<Rightarrow> Inl ContentNotAString)"

record SNKey =
  key_version :: string
  key_uuid :: string

text \<open>
  The collaborators of the protocol manager that are not among the sources: the key
  manager's two lookups, \<open>isDecryptedIntent\<close> and \<open>intentRequiresEncryption\<close> of the
  intents module, the operators' \<open>generateEncryptionParameters\<close> (\<open>None\<close> is a falsy
  result) and \<open>generateDecryptedParameters\<close> (\<open>Inl\<close> is a thrown error), and
  \<open>CreateEncryptionParameters\<close> of the generator module.
\<close>

record 'ep collaborators =
  keyToUseForEncryptionOfPayload :: "PurePayload \<Rightarrow> intent \<Rightarrow> SNKey option"
  keyToUseForDecryptionOfPayload :: "PurePayload \<Rightarrow> SNKey option"
  isDecryptedIntent :: "intent \<Rightarrow> bool"
  intentRequiresEncryption :: "intent \<Rightarrow> bool"
  generateEncryptionParameters ::
    "operator \<Rightarrow> PurePayload \<Rightarrow> SNKey option \<Rightarrow> PayloadFormat option \<Rightarrow> override_entry list option"
  generateDecryptedParameters ::
    "operator \<Rightarrow> 'ep \<Rightarrow> SNKey \<Rightarrow> error + override_entry list"
  CreateEncryptionParameters :: "PurePayload \<Rightarrow> 'ep"

text \<open>\<open>None\<close> is the \<open>undefined\<close> the function returns when it falls off its end.\<close>

definition payloadContentFormatForIntent ::
  "SNKey option \<Rightarrow> intent \<Rightarrow> error + PayloadFormat option" where
  "payloadContentFormatForIntent key intent =
     (if key = None then
        (if intent = ENCRYPTION_INTENT_LOCAL_STORAGE_DECRYPTED
            \<or> intent = ENCRYPTION_INTENT_LOCAL_STORAGE_PREFER_ENCRYPTED
            \<or> intent = ENCRYPTION_INTENT_FILE_DECRYPTED
         then Inr (Some DecryptedBareObject)
         else if intent = ENCRYPTION_INTENT_SYNC
         then Inr (Some DecryptedBase64String)
         else Inr None)
      else
        (if intent = ENCRYPTION_INTENT_SYNC
            \<or> intent = ENCRYPTION_INTENT_LOCAL_STORAGE_ENCRYPTED
            \<or> intent = ENCRYPTION_INTENT_FILE_ENCRYPTED
            \<or> intent = ENCRYPTION_INTENT_LOCAL_STORAGE_PREFER_ENCRYPTED
         then Inr (Some EncryptedString)
         else Inl UnhandledFormatCase))"

definition payloadByEncryptingPayload ::
  "'ep collaborators \<Rightarrow> PurePayload \<Rightarrow> SNKey option \<Rightarrow> intent \<Rightarrow> error + PurePayload" where
  "payloadByEncryptingPayload env payload key0 intent =
     (let key = (if key0 = None \<and> \<not> isDecryptedIntent env intent
                 then keyToUseForEncryptionOfPayload env payload intent
                 else key0)
      in
        if key = None \<and> intentRequiresEncryption env intent then Inl MissingKey
        else
          let v = (case key of Some k \<Rightarrow> key_version k | None \<Rightarrow> latestVersion) in
          case payloadContentFormatForIntent key intent of
            Inl e \<Rightarrow> Inl e
          | Inr fmt \<Rightarrow>
             (case operatorForVersion v of
                Inl e \<Rightarrow> Inl e
              | Inr operator \<Rightarrow>
                 (case generateEncryptionParameters env operator payload key fmt of
                    None \<Rightarrow> Inl UnableToGenerateEncryptionParameters
                  | Some encryptionParameters \<Rightarrow>
                      Inr (CreatePayloadFromAnyObject payload encryptionParameters))))"

definition payloadByDecryptingPayload ::
  "'ep collaborators \<Rightarrow> PurePayload \<Rightarrow> SNKey option \<Rightarrow> error + PurePayload" where
  "payloadByDecryptingPayload env payload key0 =
     (let key = (if key0 = None then keyToUseForDecryptionOfPayload env payload else key0)
      in
        case key of
          None \<Rightarrow>
            Inr (CreatePayloadFromAnyObject payload
                   [Set_waitingForKey (Val True), Set_errorDecrypting (Val True)])
        | Some k \<Rightarrow>
           (case versionForPayload payload of
              Inl e \<Rightarrow> Inl e
            | Inr v \<Rightarrow>
               (case operatorForVersion v of
                  Inl e \<Rightarrow> Inl e
                | Inr operator \<Rightarrow>
                   (case generateDecryptedParameters env operator
                           (CreateEncryptionParameters env payload) k of
                      Inl e \<Rightarrow> Inl e
                    | Inr decryptedParameters \<Rightarrow>
                        Inr (CreatePayloadFromAnyObject payload decryptedParameters)))))"

text \<open>
  An element of the array given to \<open>payloadsByDecryptingPayloads\<close>: \<open>null\<close>,
  \<open>undefined\<close>, or an object, given by the truth value of its \<open>isPayload\<close> property
  and by the payload properties the loop reads from it.
\<close>

datatype payload_entry =
    EntryNull
  | EntryUndefined
  | Entry bool PurePayload

text \<open>
  The class \<open>PurePayload\<close> declares no property \<open>isPayload\<close>, and the constructor
  freezes the object, so none can be added: reading \<open>isPayload\<close> from a payload gives
  \<open>undefined\<close>.
\<close>

definition PurePayload_isPayload :: "PurePayload \<Rightarrow> bool js_opt" where
  "PurePayload_isPayload p = Undefined"

text \<open>A payload of the class \<open>PurePayload\<close> as an element of the array.\<close>

definition payload_object :: "PurePayload \<Rightarrow> payload_entry" where
  "payload_object p = Entry (truthy_bool (PurePayload_isPayload p)) p"

fun isString :: "content js_opt \<Rightarrow> bool" where
  "isString (Val (ContentString s)) = True"
| "isString _ = False"

text \<open>
  The loop of \<open>payloadsByDecryptingPayloads\<close> over the remaining elements, with the
  array \<open>decryptedPayloads\<close> built so far. \<open>Inl\<close> is an error thrown to the caller.
\<close>

fun payloadsByDecryptingPayloads_loop ::
  "'ep collaborators \<Rightarrow> bool \<Rightarrow> payload_entry list \<Rightarrow> payload_entry list
     \<Rightarrow> error + payload_entry list" where
  "payloadsByDecryptingPayloads_loop env throws [] decryptedPayloads = Inr decryptedPayloads"
| "payloadsByDecryptingPayloads_loop env throws (EntryNull # rest) decryptedPayloads =
     payloadsByDecryptingPayloads_loop env throws rest (decryptedPayloads @ [EntryNull])"
| "payloadsByDecryptingPayloads_loop env throws (EntryUndefined # rest) decryptedPayloads =
     payloadsByDecryptingPayloads_loop env throws rest (decryptedPayloads @ [EntryUndefined])"
| "payloadsByDecryptingPayloads_loop env throws (Entry isPayload encryptedPayload # rest)
       decryptedPayloads =
     (if \<not> isPayload then Inl NonPayloadObject
      else if deleted encryptedPayload = Val True \<and> isNullOrUndefined (content encryptedPayload)
      then payloadsByDecryptingPayloads_loop env throws rest
             (decryptedPayloads @ [Entry isPayload encryptedPayload])
      else if \<not> isString (content encryptedPayload)
      then payloadsByDecryptingPayloads_loop env throws rest
             (decryptedPayloads @ [Entry isPayload encryptedPayload])
      else
        (case payloadByDecryptingPayload env encryptedPayload None of
           Inr decryptedPayload \<Rightarrow>
             payloadsByDecryptingPayloads_loop env throws rest
               (decryptedPayloads @ [Entry True decryptedPayload])
         | Inl e \<Rightarrow>
             let marked = CreatePayloadFromAnyObject encryptedPayload
                            [Set_errorDecrypting (Val True),
                             Set_errorDecryptingValueChanged
                               (Val (\<not> truthy_bool (errorDecrypting encryptedPayload)))]
             in if throws then Inl e
                else payloadsByDecryptingPayloads_loop env throws rest
                       (decryptedPayloads @ [Entry True marked])))"

definition payloadsByDecryptingPayloads ::
  "'ep collaborators \<Rightarrow> payload_entry list \<Rightarrow> bool \<Rightarrow> error + payload_entry list" where
  "payloadsByDecryptingPayloads env payloads throws =
     payloadsByDecryptingPayloads_loop env throws payloads []"


section \<open>Integrity hash (sync\_manager.js, protocolManager.js)\<close>

text \<open>
  An item as the hash reads it: the time value of \<open>updated_at\<close> and the two flags.
  The item classes are not among the sources.
\<close>

record item =
  item_uuid :: string
  item_updated_at :: int
  item_deleted :: bool
  item_dummy :: bool

record modelManager =
  items :: "item list"

text \<open>
  Modelled from the spec: the getter \<open>nonDeletedItems\<close> of the model manager, which is
  not among the sources. The spec says the hash is taken over all non-deleted,
  non-dummy items.
\<close>

definition nonDeletedItems :: "modelManager \<Rightarrow> item list" where
  "nonDeletedItems m = filter (\<lambda>i. \<not> item_deleted i \<and> \<not> item_dummy i) (items m)"

text \<open>
  Modelled from the spec: the method \<open>updatedAtTimestamp\<close> of an item, which is not
  among the sources. The spec calls the hashed values the \<open>updated_at\<close> timestamps.
\<close>

definition updatedAtTimestamp :: "item \<Rightarrow> int" where
  "updatedAtTimestamp i = item_updated_at i"

text \<open>
  \<open>array.sort((a, b) => b.updated_at - a.updated_at)\<close>: the comparator orders by
  \<open>updated_at\<close> descending, and the sort is stable.
\<close>

definition sort_updated_at_desc :: "item list \<Rightarrow> item list" where
  "sort_updated_at_desc xs = sort_key (\<lambda>i. - item_updated_at i) xs"

text \<open>\<open>strings.join(',')\<close>.\<close>

fun join_comma :: "string list \<Rightarrow> string" where
  "join_comma [] = []"
| "join_comma [x] = x"
| "join_comma (x # y # rest) = x @ '','' @ join_comma (y # rest)"

text \<open>
  \<open>computeDataIntegrityHash\<close> of the sync manager. \<open>sha256\<close> is the digest of the
  crypto provider and \<open>toString\<close> the rendering of a number that \<open>join\<close> applies;
  both are outside the sources. Nothing in the body throws on these types, so the
  \<open>catch\<close> branch that returns \<open>null\<close> is not reached.
\<close>

definition computeDataIntegrityHash ::
  "(string \<Rightarrow> string) \<Rightarrow> (int \<Rightarrow> string) \<Rightarrow> modelManager \<Rightarrow> string" where
  "computeDataIntegrityHash sha256 toString m =
     (let sorted_items = sort_updated_at_desc (nonDeletedItems m);
          dates = map updatedAtTimestamp sorted_items;
          string = join_comma (map toString dates)
      in sha256 string)"

text \<open>
  Modelled from the spec: the getter \<open>allNondummyItems\<close> of the model manager, which is
  not among the sources. The spec describes dummy items as placeholders created for
  missing references; the getter returns all items that are not dummies, deleted
  ones among them.
\<close>

definition allNondummyItems :: "modelManager \<Rightarrow> item list" where
  "allNondummyItems m = filter (\<lambda>i. \<not> item_dummy i) (items m)"

text \<open>
  \<open>computeDataIntegrityHash\<close> of the protocol manager: the same body over the getter
  \<open>allNondummyItems\<close>.
\<close>

definition protocolManager_computeDataIntegrityHash ::
  "(string \<Rightarrow> string) \<Rightarrow> (int \<Rightarrow> string) \<Rightarrow> modelManager \<Rightarrow> string" where
  "protocolManager_computeDataIntegrityHash sha256 toString m =
     (let sorted_items = sort_updated_at_desc (allNondummyItems m);
          dates = map updatedAtTimestamp sorted_items;
          string = join_comma (map toString dates)
      in sha256 string)"

section \<open>Account sync operation (operation.js)\<close>

text \<open>
  Modelled from the spec: \<open>DEFAULT_UP_DOWN_LIMIT\<close> of the sync constants module, which
  is not among the sources. The spec gives the default 150.
\<close>

definition DEFAULT_UP_DOWN_LIMIT :: nat where
  "DEFAULT_UP_DOWN_LIMIT = 150"

text \<open>
  Modelled from the spec: \<open>subtractFromArray(inArray, toSubtract)\<close> of the utilities
  module, which is not among the sources. The spec says that the operation pops the
  posted payloads off the pending ones and that resolved callers leave the resolve
  queue: each element of \<open>toSubtract\<close> in turn is removed from \<open>inArray\<close> at its first
  occurrence. Elements are compared by identity, so the element type stands for
  object identities.
\<close>

definition subtractFromArray :: "'a list \<Rightarrow> 'a list \<Rightarrow> 'a list" where
  "subtractFromArray inArray toSubtract = fold remove1 toSubtract inArray"

record AccountSyncResponse =
  response_lastSyncToken :: "string js_opt"
  response_paginationToken :: "string js_opt"
  numberOfItemsInvolved :: nat

text \<open>
  The operation object. The constructor stores the one array it is given under both
  \<open>payloads\<close> and \<open>pendingPayloads\<close>, so the two properties always hold the same array.
  \<open>running\<close>, \<open>cancelable\<close> and \<open>cancleled\<close> are not set by the constructor.
\<close>

record 'p AccountSyncOperation =
  payloads :: "'p list"
  pendingPayloads :: "'p list"
  lastSyncToken :: "string js_opt"
  paginationToken :: "string js_opt"
  checkIntegrity :: "bool js_opt"
  responses :: "AccountSyncResponse list"
  running :: "bool js_opt"
  cancelable :: "bool js_opt"
  cancleled :: "bool js_opt"

definition AccountSyncOperation_new ::
  "'p list \<Rightarrow> string js_opt \<Rightarrow> string js_opt \<Rightarrow> bool js_opt \<Rightarrow> 'p AccountSyncOperation" where
  "AccountSyncOperation_new ps lst pt ci =
     \<lparr> payloads = ps, pendingPayloads = ps, lastSyncToken = lst, paginationToken = pt,
       checkIntegrity = ci, responses = [], running = Undefined, cancelable = Undefined,
       cancleled = Undefined \<rparr>"

definition upLimit :: nat where
  "upLimit = DEFAULT_UP_DOWN_LIMIT"

definition downLimit :: nat where
  "downLimit = DEFAULT_UP_DOWN_LIMIT"

definition popPayloads ::
  "'p AccountSyncOperation \<Rightarrow> nat \<Rightarrow> 'p list \<times> 'p AccountSyncOperation" where
  "popPayloads this n =
     (let popped = take n (pendingPayloads this);
          remaining = subtractFromArray (pendingPayloads this) popped
      in (popped, this\<lparr>pendingPayloads := remaining, payloads := remaining\<rparr>))"

definition lockCancelation :: "'p AccountSyncOperation \<Rightarrow> 'p AccountSyncOperation" where
  "lockCancelation this = this\<lparr>cancelable := Val False\<rparr>"

definition unlockCancelation :: "'p AccountSyncOperation \<Rightarrow> 'p AccountSyncOperation" where
  "unlockCancelation this = this\<lparr>cancelable := Val True\<rparr>"

definition tryCancel :: "'p AccountSyncOperation \<Rightarrow> 'p AccountSyncOperation \<times> bool" where
  "tryCancel this =
     (if \<not> truthy_bool (cancelable this) then (this\<lparr>cancleled := Val True\<rparr>, True)
      else (this, False))"

text \<open>The argument of \<open>apiService.sync\<close>.\<close>

record 'p sync_request =
  request_payloads :: "'p list"
  request_lastSyncToken :: "string js_opt"
  request_paginationToken :: "string js_opt"
  request_limit :: nat
  request_checkIntegrity :: "bool js_opt"

text \<open>
  \<open>run\<close> from its entry to the \<open>await\<close> of the HTTP round. \<open>None\<close>: the call returned
  at the \<open>cancleled\<close> test without a request.
\<close>

definition run_to_await ::
  "'p AccountSyncOperation \<Rightarrow> 'p AccountSyncOperation \<times> 'p sync_request option" where
  "run_to_await this =
     (if truthy_bool (cancleled this) then (this, None)
      else
        let this1 = this\<lparr>running := Val True\<rparr>;
            (posted, this2) = popPayloads this1 upLimit;
            this3 = lockCancelation this2
        in (this3,
            Some \<lparr> request_payloads = posted,
                   request_lastSyncToken = lastSyncToken this3,
                   request_paginationToken = paginationToken this3,
                   request_limit = downLimit,
                   request_checkIntegrity = checkIntegrity this3 \<rparr>))"

text \<open>
  \<open>run\<close> from the arrival of the response to the test of \<open>needsMoreSync\<close>, whose value
  is returned. The receiver of this repository reads the operation and does not
  change it.
\<close>

definition run_from_await ::
  "AccountSyncResponse \<Rightarrow> 'p AccountSyncOperation \<Rightarrow> 'p AccountSyncOperation \<times> bool" where
  "run_from_await response this =
     (let this1 = unlockCancelation this;
          this2 = this1\<lparr>responses := responses this1 @ [response]\<rparr>;
          this3 = this2\<lparr>lastSyncToken := response_lastSyncToken response\<rparr>;
          this4 = this3\<lparr>paginationToken := response_paginationToken response\<rparr>;
          needsMoreSync = (length (pendingPayloads this4) > 0 \<or> truthy_string (paginationToken this4))
      in (this4, needsMoreSync))"

text \<open>
  \<open>run\<close> with no cancellation request arriving. The server is a function from its
  state and the request to the response and its next state. The recursion ends when
  a response needs no more sync, which is up to the server, so the number of rounds
  is bounded by fuel: \<open>None\<close> is fuel used up. The result holds the operation, the
  server state and the requests posted, in order.
\<close>

fun run ::
  "nat \<Rightarrow> ('s \<Rightarrow> 'p sync_request \<Rightarrow> AccountSyncResponse \<times> 's) \<Rightarrow> 's \<Rightarrow> 'p AccountSyncOperation
     \<Rightarrow> ('p AccountSyncOperation \<times> 's \<times> 'p sync_request list) option" where
  "run 0 api srv this = None"
| "run (Suc fuel) api srv this =
     (case run_to_await this of
        (this1, None) \<Rightarrow> Some (this1, srv, [])
      | (this1, Some request) \<Rightarrow>
          let (response, srv1) = api srv request;
              (this2, needsMoreSync) = run_from_await response this1
          in if needsMoreSync
             then (case run fuel api srv1 this2 of
                     None \<Rightarrow> None
                   | Some (this3, srv2, requests) \<Rightarrow> Some (this3, srv2, request # requests))
             else Some (this2\<lparr>running := Val False\<rparr>, srv1, [request]))"

text \<open>
  The run loop with cancellation requests arriving from outside. Control returns to
  the caller of \<open>tryCancel\<close> only while \<open>run\<close> is suspended in the \<open>await\<close> of a round
  (\<open>InFlight\<close>), before \<open>run\<close> is first called (\<open>NotStarted\<close>), or after it returned
  (\<open>Returned\<close>). \<open>Respond\<close> is the arrival of the round's response; the flag says
  whether the receiver, called between two rounds, calls \<open>tryCancel\<close>.
\<close>

datatype phase = NotStarted | InFlight | Returned

datatype op_event = Start | TryCancel | Respond AccountSyncResponse bool

record 'p op_trace =
  operation :: "'p AccountSyncOperation"
  op_phase :: phase
  rounds :: nat
  cancel_results :: "bool list"

definition enter_run :: "'p op_trace \<Rightarrow> 'p op_trace" where
  "enter_run t =
     (case run_to_await (operation t) of
        (this1, None) \<Rightarrow> t\<lparr>operation := this1, op_phase := Returned\<rparr>
      | (this1, Some request) \<Rightarrow>
          t\<lparr>operation := this1, op_phase := InFlight, rounds := Suc (rounds t)\<rparr>)"

fun op_step :: "op_event \<Rightarrow> 'p op_trace \<Rightarrow> 'p op_trace" where
  "op_step Start t = (if op_phase t = NotStarted then enter_run t else t)"
| "op_step TryCancel t =
     (let (this1, r) = tryCancel (operation t)
      in t\<lparr>operation := this1, cancel_results := cancel_results t @ [r]\<rparr>)"
| "op_step (Respond response receiverCancels) t =
     (if op_phase t \<noteq> InFlight then t
      else
        let (this1, needsMoreSync) = run_from_await response (operation t);
            t1 = (if receiverCancels
                  then (let (this2, r) = tryCancel this1
                        in t\<lparr>operation := this2, cancel_results := cancel_results t @ [r]\<rparr>)
                  else t\<lparr>operation := this1\<rparr>)
        in if needsMoreSync then enter_run t1
           else t1\<lparr>operation := (operation t1)\<lparr>running := Val False\<rparr>, op_phase := Returned\<rparr>)"

definition op_run :: "'p AccountSyncOperation \<Rightarrow> op_event list \<Rightarrow> 'p op_trace" where
  "op_run this events =
     fold op_step events
       \<lparr> operation = this, op_phase = NotStarted, rounds = 0, cancel_results = [] \<rparr>"


section \<open>Serialization of sync requests (sync\_manager.js)\<close>

















section \<open>Example values\<close>

definition note_raw :: RawPayload where
  "note_raw =
     \<lparr> uuid = Val ''u1'', content_type = Val ''Note'', content = Val (ContentString ''004:abc''),
       deleted = Undefined, items_key_id = Val ''k1'', enc_item_key = Val ''004:key'',
       created_at = Undefined, updated_at = Null, dirtiedDate = Undefined, dirty = Val True,
       errorDecrypting = Undefined, waitingForKey = Undefined,
       errorDecryptingValueChanged = Undefined, lastSyncBegan = Undefined,
       lastSyncEnd = Undefined, auth_hash = Null, auth_params = Undefined \<rparr>"

definition note_fields :: "PayloadField list" where
  "note_fields = [Uuid, ContentType, Content, Deleted, Legacy003AuthHash, CreatedAt, DirtiedDate, Dirty]"

definition note_payload :: PurePayload where
  "note_payload =
     \<lparr> uuid = Val ''u1'', content_type = Val ''Note'', content = Val (ContentString ''004:abc''),
       deleted = Undefined, items_key_id = Val ''k1'', enc_item_key = Val ''004:key'',
       created_at = Val (Date 1000), updated_at = Val (Date 0), dirtiedDate = Val InvalidDate,
       dirty = Val True, errorDecrypting = Undefined, waitingForKey = Undefined,
       errorDecryptingValueChanged = Undefined, lastSyncBegan = Undefined,
       lastSyncEnd = Undefined, auth_hash = Null, auth_params = Undefined,
       payload_fields = note_fields, source = Constructor, format = EncryptedString,
       version = Some (JString ''004'') \<rparr>"


definition plain_payload :: PurePayload where
  "plain_payload =
     \<lparr> uuid = Val ''u2'', content_type = Val ''Note'',
       content = Val (ContentObject [(''title'', JString ''hello'')]),
       deleted = Undefined, items_key_id = Undefined, enc_item_key = Undefined,
       created_at = Val (Date 1000), updated_at = Val (Date 0), dirtiedDate = Val (Date 2000),
       dirty = Val True, errorDecrypting = Undefined, waitingForKey = Undefined,
       errorDecryptingValueChanged = Undefined, lastSyncBegan = Undefined,
       lastSyncEnd = Undefined, auth_hash = Undefined, auth_params = Undefined,
       payload_fields = [Uuid, ContentType, Content, Dirty], source = Constructor,
       format = DecryptedBareObject, version = None \<rparr>"

definition example_key :: SNKey where
  "example_key = \<lparr> key_version = ''004'', key_uuid = ''k1'' \<rparr>"

text \<open>
  An operator whose encryption parameters hold content in the format asked for.
\<close>

definition example_generateEncryptionParameters ::
  "operator \<Rightarrow> PurePayload \<Rightarrow> SNKey option \<Rightarrow> PayloadFormat option \<Rightarrow> override_entry list option"
  where
  "example_generateEncryptionParameters operator p k fmt =
     (case fmt of
        None \<Rightarrow> None
      | Some EncryptedString \<Rightarrow>
          Some [Set_content (Val (ContentString ''004:cipher'')),
                Set_enc_item_key (Val ''004:itemkey'')]
      | Some DecryptedBareObject \<Rightarrow> Some [Set_content (Val (ContentObject []))]
      | Some DecryptedBase64String \<Rightarrow> Some [Set_content (Val (ContentString ''000e30=''))]
      | Some FormatDeleted \<Rightarrow> Some [Set_content Undefined])"

text \<open>
  An environment without keys. Its intents module takes the intents
  LocalStorageDecrypted and FileDecrypted as decrypted, and Sync,
  LocalStorageEncrypted and FileEncrypted as requiring encryption.
\<close>

definition keyless_env :: "unit collaborators" where
  "keyless_env =
     \<lparr> keyToUseForEncryptionOfPayload = (\<lambda>p i. None),
       keyToUseForDecryptionOfPayload = (\<lambda>p. None),
       isDecryptedIntent =
         (\<lambda>i. i = ENCRYPTION_INTENT_LOCAL_STORAGE_DECRYPTED \<or> i = ENCRYPTION_INTENT_FILE_DECRYPTED),
       intentRequiresEncryption =
         (\<lambda>i. i = ENCRYPTION_INTENT_SYNC \<or> i = ENCRYPTION_INTENT_LOCAL_STORAGE_ENCRYPTED
               \<or> i = ENCRYPTION_INTENT_FILE_ENCRYPTED),
       generateEncryptionParameters = example_generateEncryptionParameters,
       generateDecryptedParameters = (\<lambda>operator ep k. Inl (OperatorError ''decrypt'')),
       CreateEncryptionParameters = (\<lambda>p. ()) \<rparr>"

definition keyed_env :: "unit collaborators" where
  "keyed_env =
     keyless_env\<lparr> keyToUseForEncryptionOfPayload := (\<lambda>p i. Some example_key),
                  keyToUseForDecryptionOfPayload := (\<lambda>p. Some example_key) \<rparr>"


text \<open>The payload that the example operator's parameters for encrypted content give.\<close>

definition encrypted_example :: PurePayload where
  "encrypted_example =
     CreatePayloadFromAnyObject plain_payload
       [Set_content (Val (ContentString ''004:cipher'')),
        Set_enc_item_key (Val ''004:itemkey'')]"

text \<open>The payload that its parameters for a bare object give.\<close>

definition bare_example :: PurePayload where
  "bare_example =
     CreatePayloadFromAnyObject plain_payload [Set_content (Val (ContentObject []))]"


definition example_entries :: "payload_entry list" where
  "example_entries = [EntryNull, payload_object note_payload, payload_object plain_payload]"


definition example_items :: "item list" where
  "example_items =
     [\<lparr> item_uuid = ''a'', item_updated_at = 10, item_deleted = False, item_dummy = False \<rparr>,
      \<lparr> item_uuid = ''b'', item_updated_at = 30, item_deleted = True, item_dummy = False \<rparr>,
      \<lparr> item_uuid = ''c'', item_updated_at = 20, item_deleted = False, item_dummy = False \<rparr>,
      \<lparr> item_uuid = ''d'', item_updated_at = 40, item_deleted = False, item_dummy = True \<rparr>]"

text \<open>The decimal rendering of the numbers that occur in the example.\<close>

definition example_toString :: "int \<Rightarrow> string" where
  "example_toString n =
     (if n = 10 then ''10'' else if n = 20 then ''20'' else if n = 30 then ''30'' else ''40'')"


definition example_operation :: "nat AccountSyncOperation" where
  "example_operation = AccountSyncOperation_new [1, 2, 3] (Val ''t0'') Undefined Undefined"

definition paging_response :: AccountSyncResponse where
  "paging_response =
     \<lparr> response_lastSyncToken = Val ''t1'', response_paginationToken = Val ''c1'',
       numberOfItemsInvolved = 3 \<rparr>"

definition final_response :: AccountSyncResponse where
  "final_response =
     \<lparr> response_lastSyncToken = Val ''t2'', response_paginationToken = Null,
       numberOfItemsInvolved = 0 \<rparr>"

text \<open>A server that sends a pagination token with its first response only.\<close>

definition example_api :: "nat \<Rightarrow> nat sync_request \<Rightarrow> AccountSyncResponse \<times> nat" where
  "example_api n request = (if n = 0 then paging_response else final_response, Suc n)"






section \<open>Auxiliary functions for the proofs\<close>

text \<open>
  What one pass of the loop of \<open>payloadsByDecryptingPayloads\<close> pushes for an element
  when it does not throw, and the error it catches for it, if any.
\<close>

definition marked_payload :: "PurePayload \<Rightarrow> PurePayload" where
  "marked_payload p =
     CreatePayloadFromAnyObject p
       [Set_errorDecrypting (Val True),
        Set_errorDecryptingValueChanged (Val (\<not> truthy_bool (errorDecrypting p)))]"

fun pushed_entry :: "'ep collaborators \<Rightarrow> payload_entry \<Rightarrow> payload_entry" where
  "pushed_entry env EntryNull = EntryNull"
| "pushed_entry env EntryUndefined = EntryUndefined"
| "pushed_entry env (Entry b p) =
     (if \<not> isString (content p) then Entry b p
      else case payloadByDecryptingPayload env p None of
             Inr d \<Rightarrow> Entry True d
           | Inl e \<Rightarrow> Entry True (marked_payload p))"

fun caught_error :: "'ep collaborators \<Rightarrow> payload_entry \<Rightarrow> error option" where
  "caught_error env (Entry b p) =
     (if \<not> isString (content p) then None
      else case payloadByDecryptingPayload env p None of
             Inr d \<Rightarrow> None
           | Inl e \<Rightarrow> Some e)"
| "caught_error env _ = None"

definition payload_or_empty :: "payload_entry \<Rightarrow> bool" where
  "payload_or_empty e \<longleftrightarrow> e = EntryNull \<or> e = EntryUndefined \<or> (\<exists>p. e = Entry True p)"


section \<open>The payload constructor and ejection\<close>

lemma PurePayload_new_Inr:
  assumes "PurePayload_new now fill keys raw fs src = Inr p"
  shows "content p = (if truthy_content (content raw)
                      then (case content raw of
                              Val (ContentObject c) \<Rightarrow> Val (ContentObject (fill c))
                            | c \<Rightarrow> c)
                      else Undefined)"
    and "format p = content_format (content p)"
    and "version p = content_version (content p)"
    and "created_at p = Val (if truthy_object (created_at raw) then new_Date (created_at raw) else Date now)"
    and "updated_at p = Val (if truthy_object (updated_at raw) then new_Date (updated_at raw) else Date 0)"
  using assms
  by (auto simp: PurePayload_new_def Let_def split: if_splits)

text \<open>
  Claim C5. A payload that the constructor returns has content, format and version
  that agree: string content not starting with \<open>"000"\<close> has format \<open>EncryptedString\<close>
  and as version its first three characters; string content starting with \<open>"000"\<close>
  has format \<open>DecryptedBase64String\<close>; object content has format
  \<open>DecryptedBareObject\<close> and the version of \<open>content.version\<close>; absent content has
  format \<open>Deleted\<close>. The content is the raw content when that is a non-empty string,
  the filled raw content when that is an object, and absent otherwise. The payload is
  a value, so nothing changes these properties afterwards.
\<close>

theorem constructor_content_format_version:
  assumes "PurePayload_new now fill keys raw fs src = Inr p"
  shows "(\<forall>s. content p = Val (ContentString s) \<and> \<not> startsWith s ''000''
              \<longrightarrow> format p = EncryptedString \<and> version p = Some (JString (take 3 s)))
       \<and> (\<forall>s. content p = Val (ContentString s) \<and> startsWith s ''000''
              \<longrightarrow> format p = DecryptedBase64String \<and> version p = Some (JString ''000''))
       \<and> (\<forall>c. content p = Val (ContentObject c)
              \<longrightarrow> format p = DecryptedBareObject \<and> version p = map_of c ''version'')
       \<and> (isNullOrUndefined (content p) \<longrightarrow> format p = FormatDeleted \<and> version p = None)
       \<and> (\<forall>s. content raw = Val (ContentString s) \<and> s \<noteq> []
              \<longrightarrow> content p = Val (ContentString s))
       \<and> (\<forall>c. content raw = Val (ContentObject c)
              \<longrightarrow> content p = Val (ContentObject (fill c)))
       \<and> (isNullOrUndefined (content raw) \<or> content raw = Val (ContentString [])
              \<longrightarrow> content p = Undefined)"
proof -
  note facts = PurePayload_new_Inr(1-3)[OF assms]
  have f: "format p = content_format (content p)" and v: "version p = content_version (content p)"
    using facts by simp_all
  have a: "\<forall>s. content p = Val (ContentString s) \<and> \<not> startsWith s ''000''
              \<longrightarrow> format p = EncryptedString \<and> version p = Some (JString (take 3 s))"
    using f v by (simp add: V000Base64Decrypted_def VersionLength_def)
  have b: "\<forall>s. content p = Val (ContentString s) \<and> startsWith s ''000''
              \<longrightarrow> format p = DecryptedBase64String \<and> version p = Some (JString ''000'')"
    using f v by (auto simp add: V000Base64Decrypted_def VersionLength_def startsWith_def
        eval_nat_numeral)
  have c: "\<forall>c. content p = Val (ContentObject c)
              \<longrightarrow> format p = DecryptedBareObject \<and> version p = map_of c ''version''"
    using f v by simp
  have d: "isNullOrUndefined (content p) \<longrightarrow> format p = FormatDeleted \<and> version p = None"
    using f v by (cases "content p") simp_all
  have e: "\<forall>s. content raw = Val (ContentString s) \<and> s \<noteq> []
              \<longrightarrow> content p = Val (ContentString s)"
    using facts(1) by simp
  have g: "\<forall>c. content raw = Val (ContentObject c)
              \<longrightarrow> content p = Val (ContentObject (fill c))"
    using facts(1) by simp
  have h: "isNullOrUndefined (content raw) \<or> content raw = Val (ContentString [])
              \<longrightarrow> content p = Undefined"
    using facts(1) by (cases "content raw") auto
  from a b c d e g h show ?thesis by blast
qed

text \<open>
  Claim C10. A payload that the constructor returns has a \<open>created_at\<close> and an
  \<open>updated_at\<close> that are neither \<open>null\<close> nor \<open>undefined\<close>: a raw payload without
  \<open>created_at\<close> gets the construction time, one without \<open>updated_at\<close> gets the epoch,
  and a given date is kept.
\<close>

theorem constructor_timestamps_defined:
  assumes "PurePayload_new now fill keys raw fs src = Inr p"
  shows "\<not> isNullOrUndefined (created_at p) \<and> \<not> isNullOrUndefined (updated_at p)
       \<and> (isNullOrUndefined (created_at raw) \<longrightarrow> created_at p = Val (Date now))
       \<and> (isNullOrUndefined (updated_at raw) \<longrightarrow> updated_at p = Val (Date 0))
       \<and> (\<forall>d. created_at raw = Val d \<longrightarrow> created_at p = Val d)
       \<and> (\<forall>d. updated_at raw = Val d \<longrightarrow> updated_at p = Val d)"
proof -
  note c = PurePayload_new_Inr(4)[OF assms] and u = PurePayload_new_Inr(5)[OF assms]
  have 1: "\<not> isNullOrUndefined (created_at p)" using c by simp
  have 2: "\<not> isNullOrUndefined (updated_at p)" using u by simp
  have 3: "isNullOrUndefined (created_at raw) \<longrightarrow> created_at p = Val (Date now)"
    using c by (cases "created_at raw") simp_all
  have 4: "isNullOrUndefined (updated_at raw) \<longrightarrow> updated_at p = Val (Date 0)"
    using u by (cases "updated_at raw") simp_all
  have 5: "\<forall>d. created_at raw = Val d \<longrightarrow> created_at p = Val d" using c by simp
  have 6: "\<forall>d. updated_at raw = Val d \<longrightarrow> updated_at p = Val d" using u by simp
  from 1 2 3 4 5 6 show ?thesis by blast
qed

lemma note_payload_constructed:
  "PurePayload_new 1000 id [] note_raw (Some note_fields) None = Inr note_payload"
  by (simp add: PurePayload_new_def note_raw_def note_payload_def note_fields_def
      V000Base64Decrypted_def VersionLength_def startsWith_def)

lemma note_payload_simps:
  "content note_payload = Val (ContentString ''004:abc'')"
  "payload_fields note_payload = note_fields"
  "deleted note_payload = Undefined"
  "auth_hash note_payload = Null"
  "errorDecrypting note_payload = Undefined"
  "format note_payload = EncryptedString"
  "version note_payload = Some (JString ''004'')"
  by (simp_all add: note_payload_def)

lemma note_raw_simps:
  "content note_raw = Val (ContentString ''004:abc'')"
  "created_at note_raw = Undefined"
  "updated_at note_raw = Null"
  by (simp_all add: note_raw_def)

theorem constructor_content_format_version_witness:
  "PurePayload_new 1000 id [] note_raw (Some note_fields) None = Inr note_payload
   \<and> content note_payload = Val (ContentString ''004:abc'')
   \<and> format note_payload = EncryptedString
   \<and> version note_payload = Some (JString ''004'')"
proof -
  note t = constructor_content_format_version [OF note_payload_constructed]
  have c: "content note_payload = Val (ContentString ''004:abc'')"
    using t note_raw_simps(1) by blast
  have n: "\<not> startsWith ''004:abc'' ''000''" by (simp add: startsWith_def)
  from t c n have "format note_payload = EncryptedString
      \<and> version note_payload = Some (JString (take 3 ''004:abc''))" by blast
  then show ?thesis using c note_payload_constructed by simp
qed

theorem constructor_timestamps_defined_witness:
  "PurePayload_new 1000 id [] note_raw (Some note_fields) None = Inr note_payload
   \<and> isNullOrUndefined (created_at note_raw) \<and> isNullOrUndefined (updated_at note_raw)
   \<and> created_at note_payload = Val (Date 1000) \<and> updated_at note_payload = Val (Date 0)"
proof -
  note t = constructor_timestamps_defined [OF note_payload_constructed]
  have a: "isNullOrUndefined (created_at note_raw)" "isNullOrUndefined (updated_at note_raw)"
    by (simp_all add: note_raw_simps)
  from t a have "created_at note_payload = Val (Date 1000) \<and> updated_at note_payload = Val (Date 0)"
    by blast
  then show ?thesis using a note_payload_constructed by simp
qed

lemma ejected_loop_lookup:
  "ejected_loop p fs r f =
     (if f \<in> set fs \<and> f \<notin> set nonRequiredFields
          \<and> \<not> (isNullOrUndefined (payload_get p f) \<and> f \<in> set optionalFields)
      then Some (payload_get p f) else r f)"
  by (induction fs arbitrary: r) (auto simp: Let_def)

text \<open>
  Claim C8. The object that \<open>ejected\<close> returns has as keys exactly the fields listed
  in the payload's fields, except the six fields \<open>DirtiedDate\<close>, \<open>ErrorDecrypting\<close>,
  \<open>ErrorDecryptingChanged\<close>, \<open>WaitingForKey\<close>, \<open>LastSyncBegan\<close>, \<open>LastSyncEnd\<close>, and
  except \<open>Deleted\<close> and \<open>auth_hash\<close> when their value is \<open>null\<close> or \<open>undefined\<close>; every
  key has the value the payload has for it.
\<close>

theorem ejected_fields_and_values:
  "dom (ejected p) =
     {f \<in> set (payload_fields p).
        f \<notin> {DirtiedDate, ErrorDecrypting, ErrorDecryptingChanged, WaitingForKey,
               LastSyncBegan, LastSyncEnd}
        \<and> \<not> (f \<in> {Deleted, Legacy003AuthHash} \<and> isNullOrUndefined (payload_get p f))}
   \<and> (\<forall>f \<in> dom (ejected p). ejected p f = Some (payload_get p f))"
proof -
  have look: "\<And>f. ejected p f =
     (if f \<in> set (payload_fields p) \<and> f \<notin> set nonRequiredFields
          \<and> \<not> (isNullOrUndefined (payload_get p f) \<and> f \<in> set optionalFields)
      then Some (payload_get p f) else None)"
    by (simp add: ejected_def ejected_loop_lookup)
  have d: "dom (ejected p) =
     {f \<in> set (payload_fields p).
        f \<notin> {DirtiedDate, ErrorDecrypting, ErrorDecryptingChanged, WaitingForKey,
               LastSyncBegan, LastSyncEnd}
        \<and> \<not> (f \<in> {Deleted, Legacy003AuthHash} \<and> isNullOrUndefined (payload_get p f))}"
    unfolding dom_def look by (auto simp: nonRequiredFields_def optionalFields_def)
  have v: "\<forall>f \<in> dom (ejected p). ejected p f = Some (payload_get p f)"
    unfolding dom_def look by (auto split: if_splits)
  from d v show ?thesis by blast
qed

theorem ejected_fields_and_values_witness:
  "dom (ejected note_payload) = {Uuid, ContentType, Content, CreatedAt, Dirty}
   \<and> ejected note_payload Content = Some (Val (VContent (ContentString ''004:abc'')))"
proof -
  note t = ejected_fields_and_values [of note_payload]
  have g: "payload_get note_payload Deleted = Undefined"
    "payload_get note_payload Legacy003AuthHash = Null"
    "payload_get note_payload Content = Val (VContent (ContentString ''004:abc''))"
    by (simp_all add: note_payload_simps)
  have d: "dom (ejected note_payload) = {Uuid, ContentType, Content, CreatedAt, Dirty}"
    unfolding conjunct1 [OF t] note_payload_simps(2) note_fields_def
    using g(1,2) by auto
  have "Content \<in> dom (ejected note_payload)" using d by simp
  with t have "ejected note_payload Content = Some (payload_get note_payload Content)" by blast
  then show ?thesis using d g(3) by simp
qed

section \<open>Encrypting and decrypting payloads\<close>

lemma CreatePayloadFromAnyObject_constructed:
  assumes "format p = content_format (content p)" and "version p = content_version (content p)"
  shows "CreatePayloadFromAnyObject p [Set_waitingForKey (Val True), Set_errorDecrypting (Val True)]
         = p\<lparr>waitingForKey := Val True, errorDecrypting := Val True,
              payload_fields := fields_union (payload_fields p) [WaitingForKey, ErrorDecrypting]\<rparr>"
  using assms by (simp add: CreatePayloadFromAnyObject_def)

text \<open>
  Claim C9. For a payload built by the constructor, when no key is supplied and the
  key manager's lookup returns none, \<open>payloadByDecryptingPayload\<close> returns the payload
  with \<open>waitingForKey\<close> and \<open>errorDecrypting\<close> set to true, these two names added to
  its fields, and every other property, the content among them, as it was.
\<close>

theorem payloadByDecryptingPayload_without_key:
  assumes "PurePayload_new now fill keys raw fs src = Inr payload"
    and "keyToUseForDecryptionOfPayload env payload = None"
  shows "payloadByDecryptingPayload env payload None =
           Inr (payload\<lparr>waitingForKey := Val True, errorDecrypting := Val True,
                  payload_fields :=
                    fields_union (payload_fields payload) [WaitingForKey, ErrorDecrypting]\<rparr>)"
proof -
  have "format payload = content_format (content payload)"
    and "version payload = content_version (content payload)"
    using PurePayload_new_Inr(2,3) [OF assms(1)] by simp_all
  then show ?thesis
    using assms(2)
    by (simp add: payloadByDecryptingPayload_def CreatePayloadFromAnyObject_constructed)
qed

theorem payloadByDecryptingPayload_without_key_witness:
  "PurePayload_new 1000 id [] note_raw (Some note_fields) None = Inr note_payload
   \<and> keyToUseForDecryptionOfPayload keyless_env note_payload = None
   \<and> payloadByDecryptingPayload keyless_env note_payload None =
       Inr (note_payload\<lparr>waitingForKey := Val True, errorDecrypting := Val True,
              payload_fields := note_fields @ [WaitingForKey, ErrorDecrypting]\<rparr>)"
proof -
  have k: "keyToUseForDecryptionOfPayload keyless_env note_payload = None"
    by (simp add: keyless_env_def)
  have u: "fields_union (payload_fields note_payload) [WaitingForKey, ErrorDecrypting]
           = note_fields @ [WaitingForKey, ErrorDecrypting]"
    by (simp add: fields_union_def note_payload_simps note_fields_def)
  show ?thesis
    using payloadByDecryptingPayload_without_key [OF note_payload_constructed k]
      note_payload_constructed k u by simp
qed


lemma CreatePayloadFromAnyObject_format:
  "format (CreatePayloadFromAnyObject p ps)
     = content_format (content (fold apply_override_entry ps p))"
  by (simp add: CreatePayloadFromAnyObject_def Let_def)

lemma operatorForVersion_latest:
  "operatorForVersion latestVersion = Inr SNProtocolOperator004"
  by (simp add: operatorForVersion_def createOperatorForVersion_def latestVersion_def
      PROTOCOL_VERSION_001_def PROTOCOL_VERSION_002_def PROTOCOL_VERSION_003_def
      PROTOCOL_VERSION_004_def)

lemma payloadByEncryptingPayload_unfold:
  assumes "key = (if key0 = None \<and> \<not> isDecryptedIntent env intent
                  then keyToUseForEncryptionOfPayload env payload intent else key0)"
  shows "payloadByEncryptingPayload env payload key0 intent =
      (if key = None \<and> intentRequiresEncryption env intent then Inl MissingKey
       else case payloadContentFormatForIntent key intent of
              Inl e \<Rightarrow> Inl e
            | Inr fmt \<Rightarrow>
               (case operatorForVersion (case key of Some k \<Rightarrow> key_version k | None \<Rightarrow> latestVersion) of
                  Inl e \<Rightarrow> Inl e
                | Inr operator \<Rightarrow>
                   (case generateEncryptionParameters env operator payload key fmt of
                      None \<Rightarrow> Inl UnableToGenerateEncryptionParameters
                    | Some ps \<Rightarrow> Inr (CreatePayloadFromAnyObject payload ps))))"
  unfolding payloadByEncryptingPayload_def Let_def assms by (rule refl)

lemma requested_format_is_produced:
  assumes faithful: "\<forall>operator p k f ps.
              generateEncryptionParameters env operator p k (Some f) = Some ps
              \<longrightarrow> content_format (content (fold apply_override_entry ps p)) = f"
    and res: "(case operatorForVersion v of
                 Inl e \<Rightarrow> Inl e
               | Inr operator \<Rightarrow>
                  (case generateEncryptionParameters env operator payload key (Some f) of
                     None \<Rightarrow> Inl UnableToGenerateEncryptionParameters
                   | Some ps \<Rightarrow> Inr (CreatePayloadFromAnyObject payload ps))) = Inr p'"
  shows "format p' = f"
proof -
  from res obtain operator ps where
    g: "generateEncryptionParameters env operator payload key (Some f) = Some ps"
    and p': "p' = CreatePayloadFromAnyObject payload ps"
    by (auto split: sum.splits option.splits)
  from faithful g have "content_format (content (fold apply_override_entry ps payload)) = f"
    by blast
  then show ?thesis unfolding p' by (simp add: CreatePayloadFromAnyObject_format)
qed

text \<open>
  Claim C1, as amended. Let the key be the supplied one or, when none is supplied and
  the intent is not a decrypted intent, the one the key manager returns, and let the
  operators hold in their encryption parameters content of the format they are asked
  for. With a key, the intents Sync, LocalStorageEncrypted, FileEncrypted and
  LocalStoragePreferEncrypted ask the operator of the key's version for
  \<open>EncryptedString\<close>, and a payload that is returned has that format. With no key
  and an intent that does not require encryption, LocalStoragePreferEncrypted,
  LocalStorageDecrypted and FileDecrypted ask the operator of the latest version for
  \<open>DecryptedBareObject\<close>, and a payload that is returned has that format; Sync gives
  \<open>DecryptedBase64String\<close>. With no key and an intent that requires encryption the
  call fails with the missing-key error, and with a key the intents
  LocalStorageDecrypted and FileDecrypted fail with the unhandled-case error.
\<close>

theorem payloadByEncryptingPayload_format:
  fixes env :: "'ep collaborators"
  assumes "\<forall>operator p k f ps.
              generateEncryptionParameters env operator p k (Some f) = Some ps
              \<longrightarrow> content_format (content (fold apply_override_entry ps p)) = f"
    and "key = (if key0 = None \<and> \<not> isDecryptedIntent env intent
                then keyToUseForEncryptionOfPayload env payload intent else key0)"
  shows "(\<forall>k. key = Some k
             \<and> intent \<in> {ENCRYPTION_INTENT_SYNC, ENCRYPTION_INTENT_LOCAL_STORAGE_ENCRYPTED,
                         ENCRYPTION_INTENT_FILE_ENCRYPTED,
                         ENCRYPTION_INTENT_LOCAL_STORAGE_PREFER_ENCRYPTED}
           \<longrightarrow> payloadByEncryptingPayload env payload key0 intent =
                 (case operatorForVersion (key_version k) of
                    Inl e \<Rightarrow> Inl e
                  | Inr operator \<Rightarrow>
                     (case generateEncryptionParameters env operator payload (Some k)
                             (Some EncryptedString) of
                        None \<Rightarrow> Inl UnableToGenerateEncryptionParameters
                      | Some ps \<Rightarrow> Inr (CreatePayloadFromAnyObject payload ps)))
               \<and> (\<forall>p'. payloadByEncryptingPayload env payload key0 intent = Inr p'
                       \<longrightarrow> format p' = EncryptedString))
       \<and> (key = None \<and> \<not> intentRequiresEncryption env intent
             \<and> intent \<in> {ENCRYPTION_INTENT_LOCAL_STORAGE_PREFER_ENCRYPTED,
                         ENCRYPTION_INTENT_LOCAL_STORAGE_DECRYPTED,
                         ENCRYPTION_INTENT_FILE_DECRYPTED}
           \<longrightarrow> payloadByEncryptingPayload env payload key0 intent =
                 (case generateEncryptionParameters env SNProtocolOperator004 payload None
                         (Some DecryptedBareObject) of
                    None \<Rightarrow> Inl UnableToGenerateEncryptionParameters
                  | Some ps \<Rightarrow> Inr (CreatePayloadFromAnyObject payload ps))
               \<and> (\<forall>p'. payloadByEncryptingPayload env payload key0 intent = Inr p'
                       \<longrightarrow> format p' = DecryptedBareObject))
       \<and> (key = None \<and> \<not> intentRequiresEncryption env intent
             \<and> intent = ENCRYPTION_INTENT_SYNC
           \<longrightarrow> (\<forall>p'. payloadByEncryptingPayload env payload key0 intent = Inr p'
                       \<longrightarrow> format p' = DecryptedBase64String))
       \<and> (key = None \<and> intentRequiresEncryption env intent
           \<longrightarrow> payloadByEncryptingPayload env payload key0 intent = Inl MissingKey)
       \<and> (\<forall>k. key = Some k
             \<and> intent \<in> {ENCRYPTION_INTENT_LOCAL_STORAGE_DECRYPTED,
                         ENCRYPTION_INTENT_FILE_DECRYPTED}
           \<longrightarrow> payloadByEncryptingPayload env payload key0 intent = Inl UnhandledFormatCase)"
proof -
  note unfold = payloadByEncryptingPayload_unfold [OF assms(2)]
  note produced = requested_format_is_produced [OF assms(1)]
  have a: "\<forall>k. key = Some k
             \<and> intent \<in> {ENCRYPTION_INTENT_SYNC, ENCRYPTION_INTENT_LOCAL_STORAGE_ENCRYPTED,
                         ENCRYPTION_INTENT_FILE_ENCRYPTED,
                         ENCRYPTION_INTENT_LOCAL_STORAGE_PREFER_ENCRYPTED}
           \<longrightarrow> payloadByEncryptingPayload env payload key0 intent =
                 (case operatorForVersion (key_version k) of
                    Inl e \<Rightarrow> Inl e
                  | Inr operator \<Rightarrow>
                     (case generateEncryptionParameters env operator payload (Some k)
                             (Some EncryptedString) of
                        None \<Rightarrow> Inl UnableToGenerateEncryptionParameters
                      | Some ps \<Rightarrow> Inr (CreatePayloadFromAnyObject payload ps)))
               \<and> (\<forall>p'. payloadByEncryptingPayload env payload key0 intent = Inr p'
                       \<longrightarrow> format p' = EncryptedString)"
  proof (intro allI impI, elim conjE)
    fix k assume k: "key = Some k"
      and i: "intent \<in> {ENCRYPTION_INTENT_SYNC, ENCRYPTION_INTENT_LOCAL_STORAGE_ENCRYPTED,
                         ENCRYPTION_INTENT_FILE_ENCRYPTED,
                         ENCRYPTION_INTENT_LOCAL_STORAGE_PREFER_ENCRYPTED}"
    have f: "payloadContentFormatForIntent (Some k) intent = Inr (Some EncryptedString)"
      using i by (auto simp: payloadContentFormatForIntent_def)
    have eq: "payloadByEncryptingPayload env payload key0 intent =
                 (case operatorForVersion (key_version k) of
                    Inl e \<Rightarrow> Inl e
                  | Inr operator \<Rightarrow>
                     (case generateEncryptionParameters env operator payload (Some k)
                             (Some EncryptedString) of
                        None \<Rightarrow> Inl UnableToGenerateEncryptionParameters
                      | Some ps \<Rightarrow> Inr (CreatePayloadFromAnyObject payload ps)))"
      unfolding unfold k by (simp add: f)
    have "\<forall>p'. payloadByEncryptingPayload env payload key0 intent = Inr p'
                       \<longrightarrow> format p' = EncryptedString"
      unfolding eq using produced by blast
    with eq show "payloadByEncryptingPayload env payload key0 intent =
                 (case operatorForVersion (key_version k) of
                    Inl e \<Rightarrow> Inl e
                  | Inr operator \<Rightarrow>
                     (case generateEncryptionParameters env operator payload (Some k)
                             (Some EncryptedString) of
                        None \<Rightarrow> Inl UnableToGenerateEncryptionParameters
                      | Some ps \<Rightarrow> Inr (CreatePayloadFromAnyObject payload ps)))
               \<and> (\<forall>p'. payloadByEncryptingPayload env payload key0 intent = Inr p'
                       \<longrightarrow> format p' = EncryptedString)"
      by (rule conjI)
  qed
  have b: "key = None \<and> \<not> intentRequiresEncryption env intent
             \<and> intent \<in> {ENCRYPTION_INTENT_LOCAL_STORAGE_PREFER_ENCRYPTED,
                         ENCRYPTION_INTENT_LOCAL_STORAGE_DECRYPTED,
                         ENCRYPTION_INTENT_FILE_DECRYPTED}
           \<longrightarrow> payloadByEncryptingPayload env payload key0 intent =
                 (case generateEncryptionParameters env SNProtocolOperator004 payload None
                         (Some DecryptedBareObject) of
                    None \<Rightarrow> Inl UnableToGenerateEncryptionParameters
                  | Some ps \<Rightarrow> Inr (CreatePayloadFromAnyObject payload ps))
               \<and> (\<forall>p'. payloadByEncryptingPayload env payload key0 intent = Inr p'
                       \<longrightarrow> format p' = DecryptedBareObject)"
  proof (intro impI, elim conjE)
    assume k: "key = None" and r: "\<not> intentRequiresEncryption env intent"
      and i: "intent \<in> {ENCRYPTION_INTENT_LOCAL_STORAGE_PREFER_ENCRYPTED,
                         ENCRYPTION_INTENT_LOCAL_STORAGE_DECRYPTED,
                         ENCRYPTION_INTENT_FILE_DECRYPTED}"
    have f: "payloadContentFormatForIntent None intent = Inr (Some DecryptedBareObject)"
      using i by (auto simp: payloadContentFormatForIntent_def)
    have eq0: "payloadByEncryptingPayload env payload key0 intent =
                 (case operatorForVersion latestVersion of
                    Inl e \<Rightarrow> Inl e
                  | Inr operator \<Rightarrow>
                     (case generateEncryptionParameters env operator payload None
                             (Some DecryptedBareObject) of
                        None \<Rightarrow> Inl UnableToGenerateEncryptionParameters
                      | Some ps \<Rightarrow> Inr (CreatePayloadFromAnyObject payload ps)))"
      unfolding unfold k using r by (simp add: f)
    have "\<forall>p'. payloadByEncryptingPayload env payload key0 intent = Inr p'
                       \<longrightarrow> format p' = DecryptedBareObject"
      unfolding eq0 using produced by blast
    moreover have "payloadByEncryptingPayload env payload key0 intent =
                 (case generateEncryptionParameters env SNProtocolOperator004 payload None
                         (Some DecryptedBareObject) of
                    None \<Rightarrow> Inl UnableToGenerateEncryptionParameters
                  | Some ps \<Rightarrow> Inr (CreatePayloadFromAnyObject payload ps))"
      unfolding eq0 by (simp add: operatorForVersion_latest)
    ultimately show "payloadByEncryptingPayload env payload key0 intent =
                 (case generateEncryptionParameters env SNProtocolOperator004 payload None
                         (Some DecryptedBareObject) of
                    None \<Rightarrow> Inl UnableToGenerateEncryptionParameters
                  | Some ps \<Rightarrow> Inr (CreatePayloadFromAnyObject payload ps))
               \<and> (\<forall>p'. payloadByEncryptingPayload env payload key0 intent = Inr p'
                       \<longrightarrow> format p' = DecryptedBareObject)"
      by simp
  qed
  have c: "key = None \<and> \<not> intentRequiresEncryption env intent
             \<and> intent = ENCRYPTION_INTENT_SYNC
           \<longrightarrow> (\<forall>p'. payloadByEncryptingPayload env payload key0 intent = Inr p'
                       \<longrightarrow> format p' = DecryptedBase64String)"
  proof (intro impI, elim conjE)
    assume k: "key = None" and r: "\<not> intentRequiresEncryption env intent"
      and i: "intent = ENCRYPTION_INTENT_SYNC"
    have f: "payloadContentFormatForIntent None intent = Inr (Some DecryptedBase64String)"
      using i by (simp add: payloadContentFormatForIntent_def)
    have eq0: "payloadByEncryptingPayload env payload key0 intent =
                 (case operatorForVersion latestVersion of
                    Inl e \<Rightarrow> Inl e
                  | Inr operator \<Rightarrow>
                     (case generateEncryptionParameters env operator payload None
                             (Some DecryptedBase64String) of
                        None \<Rightarrow> Inl UnableToGenerateEncryptionParameters
                      | Some ps \<Rightarrow> Inr (CreatePayloadFromAnyObject payload ps)))"
      unfolding unfold k using r by (simp add: f)
    show "\<forall>p'. payloadByEncryptingPayload env payload key0 intent = Inr p'
                       \<longrightarrow> format p' = DecryptedBase64String"
      unfolding eq0 using produced by blast
  qed
  have d: "key = None \<and> intentRequiresEncryption env intent
           \<longrightarrow> payloadByEncryptingPayload env payload key0 intent = Inl MissingKey"
    unfolding unfold by simp
  have e: "\<forall>k. key = Some k
             \<and> intent \<in> {ENCRYPTION_INTENT_LOCAL_STORAGE_DECRYPTED,
                         ENCRYPTION_INTENT_FILE_DECRYPTED}
           \<longrightarrow> payloadByEncryptingPayload env payload key0 intent = Inl UnhandledFormatCase"
    unfolding unfold by (auto simp: payloadContentFormatForIntent_def)
  from a b c d e show ?thesis by (intro conjI)
qed

text \<open>
  Claim C1 as stated fails for Sync without a key: in an environment without keys
  whose intents module takes Sync as requiring encryption, the call fails with the
  missing-key error and no payload of format \<open>DecryptedBase64String\<close> is returned.
\<close>

theorem payloadByEncryptingPayload_sync_without_key:
  "payloadByEncryptingPayload keyless_env plain_payload None ENCRYPTION_INTENT_SYNC
     = Inl MissingKey"
  by (simp add: payloadByEncryptingPayload_def keyless_env_def)

lemma example_operator_faithful:
  "example_generateEncryptionParameters operator p k (Some f) = Some ps
   \<Longrightarrow> content_format (content (fold apply_override_entry ps p)) = f"
  by (cases f)
     (auto simp: example_generateEncryptionParameters_def V000Base64Decrypted_def
        startsWith_def)

lemma example_env_simps:
  "isDecryptedIntent keyed_env ENCRYPTION_INTENT_SYNC = False"
  "keyToUseForEncryptionOfPayload keyed_env p i = Some example_key"
  "generateEncryptionParameters keyed_env = example_generateEncryptionParameters"
  "isDecryptedIntent keyless_env ENCRYPTION_INTENT_LOCAL_STORAGE_PREFER_ENCRYPTED = False"
  "intentRequiresEncryption keyless_env ENCRYPTION_INTENT_LOCAL_STORAGE_PREFER_ENCRYPTED = False"
  "keyToUseForEncryptionOfPayload keyless_env p i = None"
  "generateEncryptionParameters keyless_env = example_generateEncryptionParameters"
  by (simp_all add: keyed_env_def keyless_env_def)


lemma bare_example_simps:
  "format bare_example = DecryptedBareObject"
  "content bare_example = Val (ContentObject [])"
  by (simp_all add: bare_example_def CreatePayloadFromAnyObject_def)

theorem payloadByEncryptingPayload_format_witness:
  "payloadByEncryptingPayload keyed_env plain_payload None ENCRYPTION_INTENT_SYNC
     = Inr encrypted_example
   \<and> format encrypted_example = EncryptedString
   \<and> content encrypted_example = Val (ContentString ''004:cipher'')
   \<and> payloadByEncryptingPayload keyless_env plain_payload None
         ENCRYPTION_INTENT_LOCAL_STORAGE_PREFER_ENCRYPTED
       = Inr bare_example
   \<and> format bare_example = DecryptedBareObject"
proof -
  have faithful: "\<forall>operator p k f ps.
              generateEncryptionParameters keyed_env operator p k (Some f) = Some ps
              \<longrightarrow> content_format (content (fold apply_override_entry ps p)) = f"
    unfolding example_env_simps(3) using example_operator_faithful by blast
  have k: "Some example_key =
     (if (None :: SNKey option) = None \<and> \<not> isDecryptedIntent keyed_env ENCRYPTION_INTENT_SYNC
      then keyToUseForEncryptionOfPayload keyed_env plain_payload ENCRYPTION_INTENT_SYNC
      else None)"
    by (simp add: example_env_simps(1,2))
  have o: "operatorForVersion (key_version example_key) = Inr SNProtocolOperator004"
    by (simp add: operatorForVersion_def createOperatorForVersion_def example_key_def
        PROTOCOL_VERSION_001_def PROTOCOL_VERSION_002_def PROTOCOL_VERSION_003_def
        PROTOCOL_VERSION_004_def)
  have s: "Some example_key = Some example_key
      \<and> ENCRYPTION_INTENT_SYNC \<in> {ENCRYPTION_INTENT_SYNC, ENCRYPTION_INTENT_LOCAL_STORAGE_ENCRYPTED,
                         ENCRYPTION_INTENT_FILE_ENCRYPTED,
                         ENCRYPTION_INTENT_LOCAL_STORAGE_PREFER_ENCRYPTED}"
    by simp
  note t = conjunct1 [OF payloadByEncryptingPayload_format [OF faithful k], rule_format, OF s]
  have r: "payloadByEncryptingPayload keyed_env plain_payload None ENCRYPTION_INTENT_SYNC
             = Inr encrypted_example"
    unfolding conjunct1 [OF t] o sum.case example_env_simps(3)
    by (simp add: example_generateEncryptionParameters_def encrypted_example_def)
  from conjunct2 [OF t, rule_format, OF r] have f: "format encrypted_example = EncryptedString" .
  have c: "content encrypted_example = Val (ContentString ''004:cipher'')"
    by (simp add: encrypted_example_def CreatePayloadFromAnyObject_def)
  have faithful': "\<forall>operator p k f ps.
              generateEncryptionParameters keyless_env operator p k (Some f) = Some ps
              \<longrightarrow> content_format (content (fold apply_override_entry ps p)) = f"
    unfolding example_env_simps(7) using example_operator_faithful by blast
  have k': "(None :: SNKey option) =
     (if (None :: SNKey option) = None
         \<and> \<not> isDecryptedIntent keyless_env ENCRYPTION_INTENT_LOCAL_STORAGE_PREFER_ENCRYPTED
      then keyToUseForEncryptionOfPayload keyless_env plain_payload
             ENCRYPTION_INTENT_LOCAL_STORAGE_PREFER_ENCRYPTED
      else None)"
    by (simp add: example_env_simps(4,6))
  have s': "(None :: SNKey option) = None
      \<and> \<not> intentRequiresEncryption keyless_env ENCRYPTION_INTENT_LOCAL_STORAGE_PREFER_ENCRYPTED
      \<and> ENCRYPTION_INTENT_LOCAL_STORAGE_PREFER_ENCRYPTED
          \<in> {ENCRYPTION_INTENT_LOCAL_STORAGE_PREFER_ENCRYPTED,
              ENCRYPTION_INTENT_LOCAL_STORAGE_DECRYPTED, ENCRYPTION_INTENT_FILE_DECRYPTED}"
    by (simp add: example_env_simps(5))
  note t' = conjunct1 [OF conjunct2 [OF payloadByEncryptingPayload_format [OF faithful' k']],
      rule_format, OF s']
  have r': "payloadByEncryptingPayload keyless_env plain_payload None
              ENCRYPTION_INTENT_LOCAL_STORAGE_PREFER_ENCRYPTED = Inr bare_example"
    unfolding conjunct1 [OF t'] example_env_simps(7)
    by (simp add: example_generateEncryptionParameters_def bare_example_def)
  from conjunct2 [OF t', rule_format, OF r'] have f': "format bare_example = DecryptedBareObject" .
  from r f c r' f' show ?thesis by (intro conjI)
qed

section \<open>Decrypting lists of payloads\<close>

lemma not_string_if_absent: "isNullOrUndefined c \<Longrightarrow> \<not> isString c"
  by (cases c) simp_all

lemma loop_step_no_throw:
  assumes "payload_or_empty x"
  shows "payloadsByDecryptingPayloads_loop env False (x # xs) acc =
         payloadsByDecryptingPayloads_loop env False xs (acc @ [pushed_entry env x])"
proof (cases x)
  case (Entry b p)
  then have "b" using assms by (simp add: payload_or_empty_def)
  then show ?thesis
    unfolding Entry
    by (simp add: not_string_if_absent marked_payload_def Let_def split: sum.split)
qed simp_all

lemma loop_no_throw:
  "\<forall>e \<in> set xs. payload_or_empty e \<Longrightarrow>
   payloadsByDecryptingPayloads_loop env False xs acc = Inr (acc @ map (pushed_entry env) xs)"
proof (induction xs arbitrary: acc)
  case Nil
  show ?case by simp
next
  case (Cons x xs)
  then show ?case by (simp add: loop_step_no_throw del: payloadsByDecryptingPayloads_loop.simps)
qed

lemma loop_step_throw_ok:
  assumes "payload_or_empty x" "caught_error env x = None"
  shows "payloadsByDecryptingPayloads_loop env True (x # xs) acc =
         payloadsByDecryptingPayloads_loop env True xs (acc @ [pushed_entry env x])"
proof (cases x)
  case (Entry b p)
  then have "b" using assms by (simp add: payload_or_empty_def)
  then show ?thesis
    using assms(2) unfolding Entry
    by (simp add: not_string_if_absent Let_def split: sum.splits if_splits)
qed simp_all

lemma loop_step_throw_error:
  assumes "payload_or_empty x" "caught_error env x = Some e"
  shows "payloadsByDecryptingPayloads_loop env True (x # xs) acc = Inl e"
proof (cases x)
  case (Entry b p)
  then have "b" using assms by (simp add: payload_or_empty_def)
  then show ?thesis
    using assms(2) unfolding Entry
    by (auto simp: Let_def dest: not_string_if_absent split: sum.splits if_splits)
qed (use assms in simp_all)

lemma loop_throw:
  "\<forall>e \<in> set pre. payload_or_empty e \<and> caught_error env e = None \<Longrightarrow>
   payloadsByDecryptingPayloads_loop env True (pre @ rest) acc =
   payloadsByDecryptingPayloads_loop env True rest (acc @ map (pushed_entry env) pre)"
proof (induction pre arbitrary: acc)
  case Nil
  show ?case by simp
next
  case (Cons x pre)
  then show ?case by (simp add: loop_step_throw_ok del: payloadsByDecryptingPayloads_loop.simps)
qed

lemma marked_payload_props:
  "errorDecrypting (marked_payload p) = Val True"
  "errorDecryptingValueChanged (marked_payload p) = Val (\<not> truthy_bool (errorDecrypting p))"
  "content (marked_payload p) = content p"
  "uuid (marked_payload p) = uuid p"
  by (simp_all add: marked_payload_def CreatePayloadFromAnyObject_def)



text \<open>
  What the loop does with objects that pass the test of \<open>isPayload\<close>: for a list
  whose elements are \<open>null\<close>, \<open>undefined\<close> or objects with a truthy \<open>isPayload\<close>,
  the result without the throws flag has the length of the input and holds at each
  position the element passed through, the decrypted payload, or the payload marked
  as failing to decrypt; with the throws flag the first decryption error is thrown.
\<close>

lemma loop_after_isPayload_test:
  assumes "\<forall>x \<in> set ps. x = EntryNull \<or> x = EntryUndefined \<or> (\<exists>p. x = Entry True p)"
  shows "(\<exists>out. payloadsByDecryptingPayloads env ps False = Inr out
            \<and> length out = length ps
            \<and> (\<forall>i < length ps.
                  (ps ! i = EntryNull \<longrightarrow> out ! i = EntryNull)
                \<and> (ps ! i = EntryUndefined \<longrightarrow> out ! i = EntryUndefined)
                \<and> (\<forall>p. ps ! i = Entry True p \<and> deleted p = Val True
                        \<and> isNullOrUndefined (content p)
                      \<longrightarrow> out ! i = Entry True p)
                \<and> (\<forall>p. ps ! i = Entry True p \<and> \<not> isString (content p)
                      \<longrightarrow> out ! i = Entry True p)
                \<and> (\<forall>p d. ps ! i = Entry True p \<and> isString (content p)
                        \<and> payloadByDecryptingPayload env p None = Inr d
                      \<longrightarrow> out ! i = Entry True d)
                \<and> (\<forall>p e. ps ! i = Entry True p \<and> isString (content p)
                        \<and> payloadByDecryptingPayload env p None = Inl e
                      \<longrightarrow> (\<exists>m. out ! i = Entry True m
                             \<and> errorDecrypting m = Val True
                             \<and> errorDecryptingValueChanged m
                                 = Val (\<not> truthy_bool (errorDecrypting p))
                             \<and> content m = content p \<and> uuid m = uuid p))))
       \<and> ((\<forall>p. Entry True p \<in> set ps \<and> isString (content p)
               \<longrightarrow> (\<exists>d. payloadByDecryptingPayload env p None = Inr d))
           \<longrightarrow> payloadsByDecryptingPayloads env ps True
                 = payloadsByDecryptingPayloads env ps False)
       \<and> (\<forall>i p e. i < length ps \<and> ps ! i = Entry True p \<and> isString (content p)
               \<and> payloadByDecryptingPayload env p None = Inl e
               \<and> (\<forall>j < i. \<forall>q. ps ! j = Entry True q \<and> isString (content q)
                      \<longrightarrow> (\<exists>d. payloadByDecryptingPayload env q None = Inr d))
           \<longrightarrow> payloadsByDecryptingPayloads env ps True = Inl e)"
proof -
  have ok: "\<forall>x \<in> set ps. payload_or_empty x"
    using assms by (simp add: payload_or_empty_def)
  let ?out = "map (pushed_entry env) ps"
  have res: "payloadsByDecryptingPayloads env ps False = Inr ?out"
    using loop_no_throw [OF ok, of env "[]"] by (simp add: payloadsByDecryptingPayloads_def)
  have pos: "\<forall>i < length ps.
                  (ps ! i = EntryNull \<longrightarrow> ?out ! i = EntryNull)
                \<and> (ps ! i = EntryUndefined \<longrightarrow> ?out ! i = EntryUndefined)
                \<and> (\<forall>p. ps ! i = Entry True p \<and> deleted p = Val True
                        \<and> isNullOrUndefined (content p)
                      \<longrightarrow> ?out ! i = Entry True p)
                \<and> (\<forall>p. ps ! i = Entry True p \<and> \<not> isString (content p)
                      \<longrightarrow> ?out ! i = Entry True p)
                \<and> (\<forall>p d. ps ! i = Entry True p \<and> isString (content p)
                        \<and> payloadByDecryptingPayload env p None = Inr d
                      \<longrightarrow> ?out ! i = Entry True d)
                \<and> (\<forall>p e. ps ! i = Entry True p \<and> isString (content p)
                        \<and> payloadByDecryptingPayload env p None = Inl e
                      \<longrightarrow> (\<exists>m. ?out ! i = Entry True m
                             \<and> errorDecrypting m = Val True
                             \<and> errorDecryptingValueChanged m
                                 = Val (\<not> truthy_bool (errorDecrypting p))
                             \<and> content m = content p \<and> uuid m = uuid p))"
    by (auto simp: marked_payload_props dest: not_string_if_absent)
  have part1: "\<exists>out. payloadsByDecryptingPayloads env ps False = Inr out
            \<and> length out = length ps
            \<and> (\<forall>i < length ps.
                  (ps ! i = EntryNull \<longrightarrow> out ! i = EntryNull)
                \<and> (ps ! i = EntryUndefined \<longrightarrow> out ! i = EntryUndefined)
                \<and> (\<forall>p. ps ! i = Entry True p \<and> deleted p = Val True
                        \<and> isNullOrUndefined (content p)
                      \<longrightarrow> out ! i = Entry True p)
                \<and> (\<forall>p. ps ! i = Entry True p \<and> \<not> isString (content p)
                      \<longrightarrow> out ! i = Entry True p)
                \<and> (\<forall>p d. ps ! i = Entry True p \<and> isString (content p)
                        \<and> payloadByDecryptingPayload env p None = Inr d
                      \<longrightarrow> out ! i = Entry True d)
                \<and> (\<forall>p e. ps ! i = Entry True p \<and> isString (content p)
                        \<and> payloadByDecryptingPayload env p None = Inl e
                      \<longrightarrow> (\<exists>m. out ! i = Entry True m
                             \<and> errorDecrypting m = Val True
                             \<and> errorDecryptingValueChanged m
                                 = Val (\<not> truthy_bool (errorDecrypting p))
                             \<and> content m = content p \<and> uuid m = uuid p)))"
    by (rule exI [of _ ?out], intro conjI res pos) simp
  have part2: "(\<forall>p. Entry True p \<in> set ps \<and> isString (content p)
               \<longrightarrow> (\<exists>d. payloadByDecryptingPayload env p None = Inr d))
           \<longrightarrow> payloadsByDecryptingPayloads env ps True
                 = payloadsByDecryptingPayloads env ps False"
  proof
    assume a: "\<forall>p. Entry True p \<in> set ps \<and> isString (content p)
               \<longrightarrow> (\<exists>d. payloadByDecryptingPayload env p None = Inr d)"
    have "\<forall>x \<in> set ps. payload_or_empty x \<and> caught_error env x = None"
    proof
      fix x assume x: "x \<in> set ps"
      then have o: "payload_or_empty x" using ok by simp
      have "caught_error env x = None"
      proof (cases x)
        case (Entry b p)
        then have "b" using o by (simp add: payload_or_empty_def)
        then show ?thesis using a x Entry by (auto split: sum.splits)
      qed simp_all
      with o show "payload_or_empty x \<and> caught_error env x = None" by simp
    qed
    from loop_throw [OF this, of "[]" "[]"] show
      "payloadsByDecryptingPayloads env ps True
         = payloadsByDecryptingPayloads env ps False"
      by (simp add: res) (simp add: payloadsByDecryptingPayloads_def)
  qed
  have part3: "\<forall>i p e. i < length ps \<and> ps ! i = Entry True p \<and> isString (content p)
               \<and> payloadByDecryptingPayload env p None = Inl e
               \<and> (\<forall>j < i. \<forall>q. ps ! j = Entry True q \<and> isString (content q)
                      \<longrightarrow> (\<exists>d. payloadByDecryptingPayload env q None = Inr d))
           \<longrightarrow> payloadsByDecryptingPayloads env ps True = Inl e"
  proof (intro allI impI, elim conjE)
    fix i p e
    assume i: "i < length ps" and at: "ps ! i = Entry True p"
      and str: "isString (content p)" and err: "payloadByDecryptingPayload env p None = Inl e"
      and before: "\<forall>j < i. \<forall>q. ps ! j = Entry True q \<and> isString (content q)
                      \<longrightarrow> (\<exists>d. payloadByDecryptingPayload env q None = Inr d)"
    have split: "ps = take i ps @ Entry True p # drop (Suc i) ps"
      using id_take_nth_drop [OF i] at by simp
    have pre: "\<forall>x \<in> set (take i ps). payload_or_empty x \<and> caught_error env x = None"
    proof
      fix x assume "x \<in> set (take i ps)"
      then obtain j where j: "j < i" "j < length ps" "x = ps ! j"
        using i by (auto simp: in_set_conv_nth)
      then have o: "payload_or_empty x" using ok by simp
      have "caught_error env x = None"
      proof (cases x)
        case (Entry b q)
        then have b: "b" using o by (simp add: payload_or_empty_def)
        have "ps ! j = Entry True q" using j(3) Entry b by simp
        with before j(1) have "isString (content q)
            \<longrightarrow> (\<exists>d. payloadByDecryptingPayload env q None = Inr d)" by blast
        then show ?thesis unfolding Entry by (auto split: sum.splits)
      qed simp_all
      with o show "payload_or_empty x \<and> caught_error env x = None" by simp
    qed
    have here: "payload_or_empty (Entry True p)" "caught_error env (Entry True p) = Some e"
      using str err by (simp_all add: payload_or_empty_def)
    have "payloadsByDecryptingPayloads_loop env True
            (take i ps @ Entry True p # drop (Suc i) ps) [] = Inl e"
      unfolding loop_throw [OF pre] by (rule loop_step_throw_error [OF here])
    then show "payloadsByDecryptingPayloads env ps True = Inl e"
      unfolding payloadsByDecryptingPayloads_def using split by simp
  qed
  from part1 part2 part3 show ?thesis by (intro conjI)
qed

lemma payload_object_eq: "payload_object p = Entry False p"
  by (simp add: payload_object_def PurePayload_isPayload_def)

lemma loop_rejects_payload_objects:
  "\<forall>x \<in> set xs. x = EntryNull \<or> x = EntryUndefined \<or> (\<exists>p. x = payload_object p) \<Longrightarrow>
   payloadsByDecryptingPayloads_loop env throws xs acc =
     (if \<exists>p. payload_object p \<in> set xs then Inl NonPayloadObject else Inr (acc @ xs))"
proof (induction xs arbitrary: acc)
  case Nil
  show ?case by simp
next
  case (Cons x xs)
  from Cons.prems have rest: "\<forall>x \<in> set xs. x = EntryNull \<or> x = EntryUndefined \<or> (\<exists>p. x = payload_object p)"
    by simp
  from Cons.prems consider "x = EntryNull" | "x = EntryUndefined" | p where "x = payload_object p"
    by auto
  then show ?case
  proof cases
    case 1
    then show ?thesis using Cons.IH [OF rest] by (simp add: payload_object_eq)
  next
    case 2
    then show ?thesis using Cons.IH [OF rest] by (simp add: payload_object_eq)
  next
    case 3
    then show ?thesis by (auto simp: payload_object_eq)
  qed
qed

text \<open>
  Claim C3 does not hold of \<open>payloadsByDecryptingPayloads\<close> as written. The loop
  throws on an element that is neither \<open>null\<close> nor \<open>undefined\<close> and whose \<open>isPayload\<close>
  is falsy, and the class \<open>PurePayload\<close> defines no such property. So for every list
  of \<open>null\<close>, \<open>undefined\<close> and payloads that holds a payload the call throws the
  non-payload error, with and without the throws flag, and returns no list; a list
  without payloads is returned as it is.
\<close>

theorem payloadsByDecryptingPayloads_throws_on_payloads:
  assumes "\<forall>x \<in> set ps. x = EntryNull \<or> x = EntryUndefined \<or> (\<exists>p. x = payload_object p)"
  shows "((\<exists>p. payload_object p \<in> set ps)
            \<longrightarrow> payloadsByDecryptingPayloads env ps throws = Inl NonPayloadObject)
       \<and> ((\<forall>p. payload_object p \<notin> set ps)
            \<longrightarrow> payloadsByDecryptingPayloads env ps throws = Inr ps)"
  using loop_rejects_payload_objects [OF assms, of env throws "[]"]
  by (simp add: payloadsByDecryptingPayloads_def)

theorem payloadsByDecryptingPayloads_throws_on_payloads_witness:
  "payloadsByDecryptingPayloads keyed_env example_entries False = Inl NonPayloadObject
   \<and> payloadsByDecryptingPayloads keyed_env example_entries True = Inl NonPayloadObject
   \<and> payloadsByDecryptingPayloads keyed_env [EntryNull, EntryUndefined] False
       = Inr [EntryNull, EntryUndefined]"
proof -
  have h: "\<forall>x \<in> set example_entries.
             x = EntryNull \<or> x = EntryUndefined \<or> (\<exists>p. x = payload_object p)"
    by (auto simp: example_entries_def)
  have m: "\<exists>p. payload_object p \<in> set example_entries"
    by (rule exI [of _ note_payload]) (simp add: example_entries_def)
  have h2: "\<forall>x \<in> set [EntryNull, EntryUndefined].
             x = EntryNull \<or> x = EntryUndefined \<or> (\<exists>p. x = payload_object p)"
    by simp
  have m2: "\<forall>p. payload_object p \<notin> set [EntryNull, EntryUndefined]"
    by (simp add: payload_object_eq)
  note t = payloadsByDecryptingPayloads_throws_on_payloads
  from conjunct1 [OF t [OF h], rule_format, OF m, of keyed_env False]
       conjunct1 [OF t [OF h], rule_format, OF m, of keyed_env True]
       mp [OF conjunct2 [OF t [OF h2]] m2, of keyed_env False]
  show ?thesis by (intro conjI)
qed

section \<open>The integrity hash\<close>

lemma sorted_desc_keys:
  "sorted_wrt (\<lambda>a b. item_updated_at b \<le> item_updated_at a) ys
   \<longleftrightarrow> sorted (map (\<lambda>i. - item_updated_at i) ys)"
  by (simp add: sorted_map)

lemma sorted_desc_unique:
  assumes "mset ys = mset xs"
    and "sorted_wrt (\<lambda>a b. item_updated_at b \<le> item_updated_at a) ys"
  shows "map item_updated_at ys = map item_updated_at (sort_updated_at_desc xs)"
proof -
  let ?k = "\<lambda>i. - item_updated_at i"
  have "sorted (map ?k ys)" using assms(2) by (simp add: sorted_desc_keys)
  moreover have "mset (map ?k ys) = mset (map ?k xs)" using assms(1) by simp
  ultimately have "sort (map ?k xs) = map ?k ys" by (rule properties_for_sort [rotated])
  moreover have "sort (map ?k xs) = map ?k (sort_key ?k xs)"
    by (rule properties_for_sort) simp_all
  ultimately have "map ?k ys = map ?k (sort_updated_at_desc xs)"
    by (simp add: sort_updated_at_desc_def)
  then have "map uminus (map ?k ys) = map uminus (map ?k (sort_updated_at_desc xs))" by simp
  then show ?thesis by (simp add: comp_def)
qed

lemma sorted_desc_exists:
  fixes xs :: "item list"
  shows "\<exists>ys. mset ys = mset xs
       \<and> sorted_wrt (\<lambda>a b. item_updated_at b \<le> item_updated_at a) ys"
proof -
  let ?s = "sort_updated_at_desc xs"
  have "mset ?s = mset xs" by (simp add: sort_updated_at_desc_def)
  moreover have "sorted_wrt (\<lambda>a b. item_updated_at b \<le> item_updated_at a) ?s"
    by (simp add: sorted_desc_keys sort_updated_at_desc_def)
  ultimately show ?thesis by blast
qed

lemma joined_timestamps_of_sorted:
  assumes "mset ys = mset xs"
    and "sorted_wrt (\<lambda>a b. item_updated_at b \<le> item_updated_at a) ys"
  shows "join_comma (map toString (map updatedAtTimestamp (sort_updated_at_desc xs)))
         = join_comma (map (\<lambda>i. toString (item_updated_at i)) ys)"
proof -
  have "map item_updated_at ys = map item_updated_at (sort_updated_at_desc xs)"
    using assms by (rule sorted_desc_unique)
  then have "map toString (map item_updated_at ys)
             = map toString (map item_updated_at (sort_updated_at_desc xs))"
    by simp
  then show ?thesis by (simp add: comp_def updatedAtTimestamp_def cong: map_cong)
qed

text \<open>
  Claim C2 holds of one of the two functions named \<open>computeDataIntegrityHash\<close> only.
  The sync manager's returns the digest of the comma-joined \<open>updatedAtTimestamp\<close>
  values of exactly the non-deleted, non-dummy items, taken in order of \<open>updated_at\<close>
  descending: there is such an ordering, and for every such ordering the result is
  the digest of its joined timestamps. The protocol manager's returns the digest
  taken in the same way over all non-dummy items, the deleted ones among them.
\<close>

theorem computeDataIntegrityHash_digests:
  "(\<exists>ys. mset ys = mset (filter (\<lambda>i. \<not> item_deleted i \<and> \<not> item_dummy i) (items m))
        \<and> sorted_wrt (\<lambda>a b. item_updated_at b \<le> item_updated_at a) ys)
   \<and> (\<forall>ys. mset ys = mset (filter (\<lambda>i. \<not> item_deleted i \<and> \<not> item_dummy i) (items m))
          \<and> sorted_wrt (\<lambda>a b. item_updated_at b \<le> item_updated_at a) ys
        \<longrightarrow> computeDataIntegrityHash sha256 toString m
              = sha256 (join_comma (map (\<lambda>i. toString (item_updated_at i)) ys)))
   \<and> (\<exists>ys. mset ys = mset (filter (\<lambda>i. \<not> item_dummy i) (items m))
        \<and> sorted_wrt (\<lambda>a b. item_updated_at b \<le> item_updated_at a) ys)
   \<and> (\<forall>ys. mset ys = mset (filter (\<lambda>i. \<not> item_dummy i) (items m))
          \<and> sorted_wrt (\<lambda>a b. item_updated_at b \<le> item_updated_at a) ys
        \<longrightarrow> protocolManager_computeDataIntegrityHash sha256 toString m
              = sha256 (join_comma (map (\<lambda>i. toString (item_updated_at i)) ys)))"
proof -
  have a: "\<forall>ys. mset ys = mset (filter (\<lambda>i. \<not> item_deleted i \<and> \<not> item_dummy i) (items m))
          \<and> sorted_wrt (\<lambda>a b. item_updated_at b \<le> item_updated_at a) ys
        \<longrightarrow> computeDataIntegrityHash sha256 toString m
              = sha256 (join_comma (map (\<lambda>i. toString (item_updated_at i)) ys))"
    unfolding computeDataIntegrityHash_def nonDeletedItems_def Let_def
    using joined_timestamps_of_sorted by metis
  have b: "\<forall>ys. mset ys = mset (filter (\<lambda>i. \<not> item_dummy i) (items m))
          \<and> sorted_wrt (\<lambda>a b. item_updated_at b \<le> item_updated_at a) ys
        \<longrightarrow> protocolManager_computeDataIntegrityHash sha256 toString m
              = sha256 (join_comma (map (\<lambda>i. toString (item_updated_at i)) ys))"
    unfolding protocolManager_computeDataIntegrityHash_def allNondummyItems_def Let_def
    using joined_timestamps_of_sorted by metis
  from sorted_desc_exists a sorted_desc_exists b show ?thesis by (intro conjI)
qed

text \<open>
  On a model manager that holds a deleted item, the two functions give different
  strings to the digest.
\<close>

theorem computeDataIntegrityHash_digests_witness:
  "computeDataIntegrityHash id example_toString \<lparr> items = example_items \<rparr> = ''20,10''
   \<and> protocolManager_computeDataIntegrityHash id example_toString \<lparr> items = example_items \<rparr>
       = ''30,20,10''"
proof -
  let ?m = "\<lparr> items = example_items \<rparr>"
  let ?ys = "[example_items ! 2, example_items ! 0]"
  let ?zs = "[example_items ! 1, example_items ! 2, example_items ! 0]"
  note t = computeDataIntegrityHash_digests [of ?m id example_toString]
  have ys: "mset ?ys = mset (filter (\<lambda>i. \<not> item_deleted i \<and> \<not> item_dummy i) (items ?m))
        \<and> sorted_wrt (\<lambda>a b. item_updated_at b \<le> item_updated_at a) ?ys"
    by (simp add: example_items_def)
  have zs: "mset ?zs = mset (filter (\<lambda>i. \<not> item_dummy i) (items ?m))
        \<and> sorted_wrt (\<lambda>a b. item_updated_at b \<le> item_updated_at a) ?zs"
    by (simp add: example_items_def)
  have "computeDataIntegrityHash id example_toString ?m
        = id (join_comma (map (\<lambda>i. example_toString (item_updated_at i)) ?ys))"
    using conjunct1 [OF conjunct2 [OF t], rule_format, OF ys] .
  then have one: "computeDataIntegrityHash id example_toString ?m = ''20,10''"
    by (simp add: example_items_def example_toString_def)
  have "protocolManager_computeDataIntegrityHash id example_toString ?m
        = id (join_comma (map (\<lambda>i. example_toString (item_updated_at i)) ?zs))"
    using conjunct2 [OF conjunct2 [OF conjunct2 [OF t]], rule_format, OF zs] .
  then have two: "protocolManager_computeDataIntegrityHash id example_toString ?m = ''30,20,10''"
    by (simp add: example_items_def example_toString_def)
  from one two show ?thesis by (rule conjI)
qed


section \<open>The account sync operation\<close>

lemma subtractFromArray_take: "subtractFromArray xs (take n xs) = drop n xs"
proof (induction xs arbitrary: n)
  case Nil
  show ?case by (simp add: subtractFromArray_def)
next
  case (Cons x xs)
  show ?case
  proof (cases n)
    case 0
    then show ?thesis by (simp add: subtractFromArray_def)
  next
    case (Suc k)
    with Cons [of k] show ?thesis by (simp add: subtractFromArray_def)
  qed
qed

lemma popPayloads_take_drop:
  "popPayloads this n =
     (take n (pendingPayloads this),
      this\<lparr>pendingPayloads := drop n (pendingPayloads this),
           payloads := drop n (pendingPayloads this)\<rparr>)"
  by (simp add: popPayloads_def subtractFromArray_take Let_def)

lemma run_to_await_not_cancelled:
  assumes "\<not> truthy_bool (cancleled this)"
  shows "run_to_await this =
     (this\<lparr>running := Val True,
           pendingPayloads := drop 150 (pendingPayloads this),
           payloads := drop 150 (pendingPayloads this),
           cancelable := Val False\<rparr>,
      Some \<lparr> request_payloads = take 150 (pendingPayloads this),
             request_lastSyncToken = lastSyncToken this,
             request_paginationToken = paginationToken this,
             request_limit = 150,
             request_checkIntegrity = checkIntegrity this \<rparr>)"
  using assms
  by (simp add: run_to_await_def popPayloads_take_drop lockCancelation_def upLimit_def
      downLimit_def DEFAULT_UP_DOWN_LIMIT_def)

lemma run_from_await_eq:
  "run_from_await response this =
     (this\<lparr>cancelable := Val True, responses := responses this @ [response],
           lastSyncToken := response_lastSyncToken response,
           paginationToken := response_paginationToken response\<rparr>,
      pendingPayloads this \<noteq> [] \<or> truthy_string (response_paginationToken response))"
  by (simp add: run_from_await_def unlockCancelation_def)

text \<open>
  Claim C6. A call of \<open>run\<close> on an operation that has not been cancelled posts the
  first 150 pending payloads, or all of them when there are fewer, and leaves exactly
  the others pending; when the response arrives, \<open>run\<close> is called again if and only
  if payloads are still pending or the response carried a pagination token.
\<close>

theorem run_round:
  assumes "\<not> truthy_bool (cancleled this)"
  shows "\<exists>this1 request.
           run_to_await this = (this1, Some request)
         \<and> request_payloads request = take 150 (pendingPayloads this)
         \<and> length (request_payloads request) \<le> 150
         \<and> pendingPayloads this1 = drop 150 (pendingPayloads this)
         \<and> pendingPayloads this = request_payloads request @ pendingPayloads this1
         \<and> (\<forall>response.
               pendingPayloads (fst (run_from_await response this1)) = pendingPayloads this1
             \<and> (snd (run_from_await response this1)
                  \<longleftrightarrow> pendingPayloads this1 \<noteq> []
                      \<or> truthy_string (response_paginationToken response)))
         \<and> (\<forall>fuel api srv.
               run (Suc fuel) api srv this =
                 (let (response, srv1) = api srv request;
                      (this2, needsMoreSync) = run_from_await response this1
                  in if pendingPayloads this1 \<noteq> []
                        \<or> truthy_string (response_paginationToken response)
                     then (case run fuel api srv1 this2 of
                             None \<Rightarrow> None
                           | Some (this3, srv2, requests) \<Rightarrow>
                               Some (this3, srv2, request # requests))
                     else Some (this2\<lparr>running := Val False\<rparr>, srv1, [request])))"
proof -
  let ?this1 = "this\<lparr>running := Val True,
           pendingPayloads := drop 150 (pendingPayloads this),
           payloads := drop 150 (pendingPayloads this),
           cancelable := Val False\<rparr>"
  let ?request = "\<lparr> request_payloads = take 150 (pendingPayloads this),
             request_lastSyncToken = lastSyncToken this,
             request_paginationToken = paginationToken this,
             request_limit = 150,
             request_checkIntegrity = checkIntegrity this \<rparr>"
  have r: "run_to_await this = (?this1, Some ?request)"
    by (rule run_to_await_not_cancelled [OF assms])
  have a: "request_payloads ?request = take 150 (pendingPayloads this)" by simp
  have b: "length (request_payloads ?request) \<le> 150" by simp
  have c: "pendingPayloads ?this1 = drop 150 (pendingPayloads this)" by simp
  have d: "pendingPayloads this = request_payloads ?request @ pendingPayloads ?this1" by simp
  have e: "\<forall>response.
               pendingPayloads (fst (run_from_await response ?this1)) = pendingPayloads ?this1
             \<and> (snd (run_from_await response ?this1)
                  \<longleftrightarrow> pendingPayloads ?this1 \<noteq> []
                      \<or> truthy_string (response_paginationToken response))"
    by (simp add: run_from_await_eq)
  have f: "\<forall>fuel api srv.
               run (Suc fuel) api srv this =
                 (let (response, srv1) = api srv ?request;
                      (this2, needsMoreSync) = run_from_await response ?this1
                  in if pendingPayloads ?this1 \<noteq> []
                        \<or> truthy_string (response_paginationToken response)
                     then (case run fuel api srv1 this2 of
                             None \<Rightarrow> None
                           | Some (this3, srv2, requests) \<Rightarrow>
                               Some (this3, srv2, ?request # requests))
                     else Some (this2\<lparr>running := Val False\<rparr>, srv1, [?request]))"
    unfolding run.simps r by (simp add: run_from_await_eq split: prod.split)
  show ?thesis
    by (rule exI [of _ ?this1], rule exI [of _ ?request], intro conjI r a b c d e f)
qed

lemma tryCancel_locked:
  "tryCancel (lockCancelation this) = ((lockCancelation this)\<lparr>cancleled := Val True\<rparr>, True)"
  by (simp add: tryCancel_def lockCancelation_def)

lemma tryCancel_unlocked:
  "tryCancel (unlockCancelation this) = (unlockCancelation this, False)"
  by (simp add: tryCancel_def unlockCancelation_def)

lemma example_operation_simps:
  "cancleled example_operation = Undefined"
  "pendingPayloads example_operation = [1, 2, 3]"
  "cancelable example_operation = Undefined"
  by (simp_all add: example_operation_def AccountSyncOperation_new_def)

lemma enter_run_not_cancelled:
  assumes "\<not> truthy_bool (cancleled (operation t))"
  shows "enter_run t =
           t\<lparr>operation := fst (run_to_await (operation t)), op_phase := InFlight,
              rounds := Suc (rounds t)\<rparr>"
    and "cancelable (fst (run_to_await (operation t))) = Val False"
    and "cancleled (fst (run_to_await (operation t))) = cancleled (operation t)"
  using assms
  by (simp_all add: enter_run_def run_to_await_not_cancelled)

lemma enter_run_cancelled:
  assumes "truthy_bool (cancleled (operation t))"
  shows "enter_run t = t\<lparr>op_phase := Returned\<rparr>"
  using assms by (simp add: enter_run_def run_to_await_def)

lemma run_Suc_not_cancelled:
  assumes "\<not> truthy_bool (cancleled this)"
  shows "run (Suc fuel) api srv this =
     (let request = the (snd (run_to_await this));
          this1 = fst (run_to_await this);
          response = fst (api srv request);
          srv1 = snd (api srv request);
          this2 = fst (run_from_await response this1)
      in if pendingPayloads this1 \<noteq> [] \<or> truthy_string (response_paginationToken response)
         then (case run fuel api srv1 this2 of
                 None \<Rightarrow> None
               | Some (this3, srv2, requests) \<Rightarrow> Some (this3, srv2, request # requests))
         else Some (this2\<lparr>running := Val False\<rparr>, srv1, [request]))"
  unfolding run.simps run_to_await_not_cancelled [OF assms]
  by (simp add: run_from_await_eq Let_def split: prod.split)

lemma round_state:
  assumes "\<not> truthy_bool (cancleled this)"
  shows "pendingPayloads (fst (run_to_await this)) = drop 150 (pendingPayloads this)"
    and "request_payloads (the (snd (run_to_await this))) = take 150 (pendingPayloads this)"
    and "pendingPayloads (fst (run_from_await response (fst (run_to_await this))))
           = drop 150 (pendingPayloads this)"
    and "\<not> truthy_bool (cancleled (fst (run_from_await response (fst (run_to_await this)))))"
  using assms
  by (simp_all add: run_to_await_not_cancelled run_from_await_eq)

lemma run_posts_all:
  "run fuel api srv this = Some (t, s, reqs) \<Longrightarrow> \<not> truthy_bool (cancleled this) \<Longrightarrow>
   concat (map request_payloads reqs) = pendingPayloads this
   \<and> (\<forall>r \<in> set reqs. length (request_payloads r) \<le> 150)
   \<and> pendingPayloads t = []"
proof (induction fuel arbitrary: srv this t s reqs)
  case 0
  then show ?case by simp
next
  case (Suc fuel)
  let ?request = "the (snd (run_to_await this))"
  let ?this1 = "fst (run_to_await this)"
  let ?response = "fst (api srv ?request)"
  let ?srv1 = "snd (api srv ?request)"
  let ?this2 = "fst (run_from_await ?response ?this1)"
  note st = round_state [OF Suc.prems(2)]
  note unfold = run_Suc_not_cancelled [OF Suc.prems(2), where fuel = fuel and api = api and srv = srv,
      unfolded Let_def]
  show ?case
  proof (cases "pendingPayloads ?this1 \<noteq> [] \<or> truthy_string (response_paginationToken ?response)")
    case True
    with Suc.prems(1) unfold obtain reqs' where
      r: "run fuel api ?srv1 ?this2 = Some (t, s, reqs')" and reqs: "reqs = ?request # reqs'"
      by (auto split: option.splits)
    from Suc.IH [OF r st(4)] have
      ih: "concat (map request_payloads reqs') = pendingPayloads ?this2"
        "\<forall>r \<in> set reqs'. length (request_payloads r) \<le> 150" "pendingPayloads t = []"
      by simp_all
    show ?thesis
      unfolding reqs using ih by (simp add: st)
  next
    case False
    with Suc.prems(1) unfold have
      res: "t = ?this2\<lparr>running := Val False\<rparr>" "reqs = [?request]"
      by simp_all
    from False have "drop 150 (pendingPayloads this) = []" by (simp add: st)
    then show ?thesis
      unfolding res by (simp add: st)
  qed
qed

lemma run_terminates:
  assumes "\<forall>s r. \<not> truthy_string (response_paginationToken (fst (api s r)))"
  shows "length (pendingPayloads this) < fuel \<Longrightarrow> \<not> truthy_bool (cancleled this) \<Longrightarrow>
         \<exists>res. run fuel api srv this = Some res"
proof (induction fuel arbitrary: srv this)
  case 0
  then show ?case by simp
next
  case (Suc fuel)
  let ?request = "the (snd (run_to_await this))"
  let ?this1 = "fst (run_to_await this)"
  let ?response = "fst (api srv ?request)"
  let ?srv1 = "snd (api srv ?request)"
  let ?this2 = "fst (run_from_await ?response ?this1)"
  note st = round_state [OF Suc.prems(2)]
  note unfold = run_Suc_not_cancelled [OF Suc.prems(2), where fuel = fuel and api = api and srv = srv,
      unfolded Let_def]
  show ?case
  proof (cases "pendingPayloads ?this1 \<noteq> []")
    case True
    then have "pendingPayloads this \<noteq> []" by (auto simp: st)
    then have "length (drop 150 (pendingPayloads this)) < length (pendingPayloads this)"
      by simp
    with Suc.prems(1) have "length (pendingPayloads ?this2) < fuel" by (simp add: st)
    from Suc.IH [OF this st(4)] obtain res where "run fuel api ?srv1 ?this2 = Some res"
      by blast
    then show ?thesis unfolding unfold using True by (auto split: prod.splits)
  next
    case False
    then show ?thesis unfolding unfold using assms by simp
  qed
qed

theorem run_round_witness:
  "\<not> truthy_bool (cancleled example_operation)
   \<and> (\<exists>this1 request.
         run_to_await example_operation = (this1, Some request)
       \<and> request_payloads request = [1, 2, 3]
       \<and> pendingPayloads this1 = []
       \<and> snd (run_from_await paging_response this1)
       \<and> \<not> snd (run_from_await final_response this1))"
proof -
  have nc: "\<not> truthy_bool (cancleled example_operation)"
    by (simp add: example_operation_simps)
  from run_round [OF nc] obtain this1 request where
    r: "run_to_await example_operation = (this1, Some request)"
    and p: "request_payloads request = take 150 (pendingPayloads example_operation)"
    and q: "pendingPayloads this1 = drop 150 (pendingPayloads example_operation)"
    and m: "\<forall>response.
               pendingPayloads (fst (run_from_await response this1)) = pendingPayloads this1
             \<and> (snd (run_from_await response this1)
                  \<longleftrightarrow> pendingPayloads this1 \<noteq> []
                      \<or> truthy_string (response_paginationToken response))"
    by blast
  have p': "request_payloads request = [1, 2, 3]"
    using p by (simp add: example_operation_simps)
  have q': "pendingPayloads this1 = []"
    using q by (simp add: example_operation_simps)
  have m1: "snd (run_from_await paging_response this1)"
    using m q' by (simp add: paging_response_def)
  have m2: "\<not> snd (run_from_await final_response this1)"
    using m q' by (simp add: final_response_def)
  from nc r p' q' m1 m2 show ?thesis by blast
qed

lemma run_example:
  "\<exists>t reqs. run 2 example_api 0 example_operation = Some (t, 2, reqs)
     \<and> map request_payloads reqs = [[1, 2, 3], []]"
proof -
  have nc: "\<not> truthy_bool (cancleled example_operation)"
    by (simp add: example_operation_simps)
  let ?request = "the (snd (run_to_await example_operation))"
  let ?this1 = "fst (run_to_await example_operation)"
  let ?this2 = "fst (run_from_await paging_response ?this1)"
  note st = round_state [OF nc]
  have nc2: "\<not> truthy_bool (cancleled ?this2)" by (rule st(4))
  have p2: "pendingPayloads ?this2 = []" using st(3) by (simp add: example_operation_simps)
  note st2 = round_state [OF nc2]
  have second: "run 1 example_api 1 ?this2 =
      Some ((fst (run_from_await final_response (fst (run_to_await ?this2))))
              \<lparr>running := Val False\<rparr>, 2, [the (snd (run_to_await ?this2))])"
    using run_Suc_not_cancelled [OF nc2, where fuel = 0 and api = example_api and srv = 1] st2(1) p2
    by (simp add: Let_def example_api_def final_response_def)
  have first: "run 2 example_api 0 example_operation =
      Some ((fst (run_from_await final_response (fst (run_to_await ?this2))))
              \<lparr>running := Val False\<rparr>, 2, [?request, the (snd (run_to_await ?this2))])"
    using run_Suc_not_cancelled [OF nc, where fuel = 1 and api = example_api and srv = 0] second
    by (simp add: Let_def example_api_def paging_response_def eval_nat_numeral)
  show ?thesis
    unfolding first using st(2) st2(2) p2 by (simp add: example_operation_simps)
qed

text \<open>
  Claim C4 does not hold of \<open>tryCancel\<close> as written. On an operation over three
  payloads whose first response carries a pagination token: a \<open>tryCancel\<close> while the
  first round is in flight returns true, and no second round is started; a
  \<open>tryCancel\<close> between the first and the second round returns false, and the second
  round is started.
\<close>

theorem tryCancel_takes_effect_in_flight_only:
  "cancel_results (op_run example_operation [Start, TryCancel, Respond paging_response False])
     = [True]
   \<and> rounds (op_run example_operation [Start, TryCancel, Respond paging_response False]) = 1
   \<and> op_phase (op_run example_operation [Start, TryCancel, Respond paging_response False])
       = Returned
   \<and> cancel_results (op_run example_operation [Start, Respond paging_response True]) = [False]
   \<and> rounds (op_run example_operation [Start, Respond paging_response True]) = 2
   \<and> op_phase (op_run example_operation [Start, Respond paging_response True]) = InFlight"
proof -
  let ?t0 = "\<lparr> operation = example_operation, op_phase = NotStarted, rounds = 0,
               cancel_results = [] \<rparr>"
  let ?o1 = "fst (run_to_await example_operation)"
  have nc: "\<not> truthy_bool (cancleled (operation ?t0))"
    by (simp add: example_operation_simps)
  have o1: "cancelable ?o1 = Val False" "cancleled ?o1 = Undefined"
    using enter_run_not_cancelled(2,3) [OF nc] by (simp_all add: example_operation_simps)
  have t1: "op_step Start ?t0 =
              \<lparr> operation = ?o1, op_phase = InFlight, rounds = 1, cancel_results = [] \<rparr>"
    using enter_run_not_cancelled(1) [OF nc] by simp
  \<comment> \<open>a request to cancel while the round is in flight\<close>
  have c1: "tryCancel ?o1 = (?o1\<lparr>cancleled := Val True\<rparr>, True)"
    by (simp add: tryCancel_def o1)
  have t2: "op_step TryCancel (op_step Start ?t0) =
              \<lparr> operation = ?o1\<lparr>cancleled := Val True\<rparr>, op_phase = InFlight, rounds = 1,
                cancel_results = [True] \<rparr>"
    unfolding t1 by (simp add: c1)
  let ?o2 = "fst (run_from_await paging_response (?o1\<lparr>cancleled := Val True\<rparr>))"
  have more: "snd (run_from_await paging_response (?o1\<lparr>cancleled := Val True\<rparr>))"
    by (simp add: run_from_await_eq paging_response_def)
  have o2: "truthy_bool (cancleled ?o2)"
    by (simp add: run_from_await_eq)
  have t3: "op_step (Respond paging_response False) (op_step TryCancel (op_step Start ?t0)) =
              \<lparr> operation = ?o2, op_phase = Returned, rounds = 1, cancel_results = [True] \<rparr>"
    unfolding t2 using more o2 by (simp add: split_beta enter_run_cancelled)
  \<comment> \<open>a request to cancel between two rounds, from the receiver\<close>
  let ?o3 = "fst (run_from_await paging_response ?o1)"
  have more3: "snd (run_from_await paging_response ?o1)"
    by (simp add: run_from_await_eq paging_response_def)
  have o3: "cancelable ?o3 = Val True" "cancleled ?o3 = Undefined"
    by (simp_all add: run_from_await_eq o1)
  have c3: "tryCancel ?o3 = (?o3, False)"
    by (simp add: tryCancel_def o3)
  have t4: "op_step (Respond paging_response True) (op_step Start ?t0) =
              enter_run \<lparr> operation = ?o3, op_phase = InFlight, rounds = 1,
                          cancel_results = [False] \<rparr>"
    unfolding t1 using more3 by (simp add: split_beta c3)
  have t5: "op_step (Respond paging_response True) (op_step Start ?t0) =
              \<lparr> operation = fst (run_to_await ?o3), op_phase = InFlight, rounds = 2,
                cancel_results = [False] \<rparr>"
    unfolding t4 using enter_run_not_cancelled(1) [of "\<lparr> operation = ?o3, op_phase = InFlight,
        rounds = 1, cancel_results = [False] \<rparr>"] o3 by simp
  show ?thesis
    unfolding op_run_def by (simp add: t3 t5 del: op_step.simps)
qed
section \<open>Serialization of sync requests\<close>












end
